theory Spec2Isabelle
  imports Complex_Main
begin

section \<open>Schema validation of analysis tables (validate_schema.py)\<close>

text \<open>
  A shallow embedding of \<^verbatim>\<open>validate\<close> and its helpers. The schema is the value
  that \<^verbatim>\<open>yaml.safe_load\<close> returns, the table is a pandas DataFrame. Python
  exceptions are values of \<open>py_error\<close>; a run that raises returns \<open>Inl\<close>.
\<close>

subsection \<open>Python values (the parsed YAML schema)\<close>

text \<open>
  A dict is an association list with string keys in insertion order; lookups take the
  first entry of a key, a real dict has each key once. Floats are modelled by the real
  numbers (no NaN or infinity in a schema).
\<close>

datatype pyval =
    VNone
  | VBool bool
  | VInt int
  | VFloat real
  | VStr string
  | VList "pyval list"
  | VDict "(string \<times> pyval) list"

datatype py_error = AttributeError | TypeError | ValueError | ReError

text \<open>Truthiness: \<^verbatim>\<open>bool(x)\<close>, \<^verbatim>\<open>if x:\<close>, \<^verbatim>\<open>x or y\<close>.\<close>

fun truthy :: "pyval \<Rightarrow> bool" where
  "truthy VNone = False"
| "truthy (VBool b) = b"
| "truthy (VInt n) = (n \<noteq> 0)"
| "truthy (VFloat r) = (r \<noteq> 0)"
| "truthy (VStr s) = (s \<noteq> [])"
| "truthy (VList xs) = (xs \<noteq> [])"
| "truthy (VDict d) = (d \<noteq> [])"

definition py_or :: "pyval \<Rightarrow> pyval \<Rightarrow> pyval" where
  "py_or x y = (if truthy x then x else y)"

text \<open>\<^verbatim>\<open>d.get(k, default)\<close> and \<^verbatim>\<open>k in d\<close> on a dict.\<close>

definition dict_get :: "(string \<times> pyval) list \<Rightarrow> string \<Rightarrow> pyval \<Rightarrow> pyval" where
  "dict_get d k dflt = (case map_of d k of Some v \<Rightarrow> v | None \<Rightarrow> dflt)"

definition dict_has :: "(string \<times> pyval) list \<Rightarrow> string \<Rightarrow> bool" where
  "dict_has d k = (map_of d k \<noteq> None)"

text \<open>
  \<^verbatim>\<open>x.get(k, default)\<close> on any value: only a dict has the method, anything else
  raises AttributeError.
\<close>

definition py_get :: "pyval \<Rightarrow> string \<Rightarrow> pyval \<Rightarrow> py_error + pyval" where
  "py_get x k dflt = (case x of VDict d \<Rightarrow> Inr (dict_get d k dflt) | _ \<Rightarrow> Inl AttributeError)"

subsection \<open>Tables (the pandas DataFrame)\<close>

text \<open>
  A cell is one element of a column. \<open>CNone\<close> (None, NaT) and \<open>CNaN\<close> (float NaN) are
  the missing values \<^verbatim>\<open>isna\<close> reports. A Series carries \<^verbatim>\<open>str(s.dtype)\<close> and
  its elements in row order; a DataFrame is its columns in order, with distinct names and
  equal lengths in a real frame.
\<close>

datatype cell = CNone | CNaN | CBool bool | CInt int | CFloat real | CStr string

record series =
  dtype :: string
  cells :: "cell list"

type_synonym dataframe = "(string \<times> series) list"

definition df_columns :: "dataframe \<Rightarrow> string list" where
  "df_columns df = map fst df"

fun isna :: "cell \<Rightarrow> bool" where
  "isna CNone = True"
| "isna CNaN = True"
| "isna _ = False"

text \<open>The rows of a frame, each as the record \<^verbatim>\<open>to_dict(orient="records")\<close> gives.\<close>

definition n_rows_of :: "dataframe \<Rightarrow> nat" where
  "n_rows_of df = (case df of [] \<Rightarrow> 0 | c # cs \<Rightarrow> fold min (map (\<lambda>(n, s). length (cells s)) cs) (length (cells (snd c))))"

definition df_rows :: "dataframe \<Rightarrow> (string \<times> cell) list list" where
  "df_rows df = map (\<lambda>i. map (\<lambda>(n, s). (n, cells s ! i)) df) [0..<n_rows_of df]"

text \<open>\<^verbatim>\<open>x[mask]\<close>: the elements of \<open>xs\<close> where the boolean mask \<open>bs\<close> holds.\<close>

definition select :: "bool list \<Rightarrow> 'a list \<Rightarrow> 'a list" where
  "select bs xs = map snd (filter fst (zip bs xs))"

definition count_true :: "bool list \<Rightarrow> nat" where
  "count_true bs = length (filter id bs)"

subsection \<open>The issue model\<close>

text \<open>
  A message is the f-string before rendering: its literal text and the values
  interpolated into it, in order (\<open>Quoted\<close> and \<open>QuotedVal\<close> stand for a value the
  f-string puts between single quotes, \<open>TypeOf\<close> for \<^verbatim>\<open>type(r)\<close>). Examples are column names, cell values, numbers of a
  coerced column, or whole rows.
\<close>

datatype frag =
    Txt string
  | Quoted string
  | QuotedVal pyval
  | Count nat
  | Num real
  | Names "string list"
  | Val pyval
  | TypeOf pyval

datatype example =
    ExName string
  | ExCell cell
  | ExNum real
  | ExRow "(string \<times> cell) list"

record ValidationIssue =
  level :: string
  code :: string
  message :: "frag list"
  column :: "string option"
  n_rows :: "nat option"
  examples :: "example list option"

definition mk_issue ::
  "string \<Rightarrow> string \<Rightarrow> frag list \<Rightarrow> string option \<Rightarrow> nat option \<Rightarrow> example list option
    \<Rightarrow> ValidationIssue" where
  "mk_issue l c m col n ex =
     \<lparr>level = l, code = c, message = m, column = col, n_rows = n, examples = ex\<rparr>"

subsection \<open>What pandas and the Python runtime compute\<close>

text \<open>
  The library calls whose result is not decided by the repository's code are parameters
  of the model:
  \<^item> \<open>df_eval df expr\<close> is \<^verbatim>\<open>df.eval(expr, engine="python")\<close>: it raises with a
    message, returns something that is not a Series, or returns a Series;
  \<^item> \<open>to_datetime s\<close> is \<^verbatim>\<open>pd.to_datetime(s, errors="coerce")\<close>;
  \<^item> \<open>numeric_of_str\<close> is what \<^verbatim>\<open>pd.to_numeric(errors="coerce")\<close> reads from a
    string element (\<open>None\<close> when it is coerced to NaN);
  \<^item> \<open>float_of_str\<close> is \<^verbatim>\<open>float(s)\<close> on a string (\<open>None\<close> when it raises);
  \<^item> \<open>str_of_cell\<close> is \<^verbatim>\<open>str(x)\<close> of a non-string element, as
    \<^verbatim>\<open>astype(str)\<close> applies it;
  \<^item> \<open>not_str_match pattern xs\<close> is \<^verbatim>\<open>~ss.str.match(pattern)\<close> on the
    string-coerced elements \<open>xs\<close>.
\<close>

datatype eval_result = EvRaises string | EvNotSeries | EvSeries series

record pandas =
  df_eval :: "dataframe \<Rightarrow> string \<Rightarrow> eval_result"
  to_datetime :: "series \<Rightarrow> py_error + cell list"
  numeric_of_str :: "string \<Rightarrow> real option"
  float_of_str :: "string \<Rightarrow> real option"
  str_of_cell :: "cell \<Rightarrow> string"
  not_str_match :: "pyval \<Rightarrow> cell list \<Rightarrow> py_error + bool list"

subsection \<open>Helpers of the module\<close>

definition lower_char :: "char \<Rightarrow> char" where
  "lower_char c =
     (case map_of (zip ''ABCDEFGHIJKLMNOPQRSTUVWXYZ'' ''abcdefghijklmnopqrstuvwxyz'') c of
        Some l \<Rightarrow> l | None \<Rightarrow> c)"

definition lower :: "string \<Rightarrow> string" where
  "lower s = map lower_char s"

definition is_space :: "char \<Rightarrow> bool" where
  "is_space c = (c \<in> set [CHR '' '', CHR 0x09, CHR 0x0A, CHR 0x0B, CHR 0x0C, CHR 0x0D])"

definition strip :: "string \<Rightarrow> string" where
  "strip s = rev (dropWhile is_space (rev (dropWhile is_space s)))"

definition startswith :: "string \<Rightarrow> string \<Rightarrow> bool" where
  "startswith s p = (take (length p) s = p)"

text \<open>\<^verbatim>\<open>_normalize_dtype_name\<close>, on \<^verbatim>\<open>str(dtype)\<close>.\<close>

definition normalize_dtype_name :: "string \<Rightarrow> string" where
  "normalize_dtype_name s =
     (if startswith s ''int'' then ''int''
      else if startswith s ''float'' then ''float''
      else if s = ''object'' \<or> s = ''string'' then ''string''
      else if startswith s ''datetime'' then ''datetime''
      else if s = ''bool'' then ''bool''
      else s)"

text \<open>\<^verbatim>\<open>_coerce_string_series\<close>: missing values stay, the others become strings.\<close>

definition coerce_string_cell :: "pandas \<Rightarrow> cell \<Rightarrow> cell" where
  "coerce_string_cell P c =
     (if isna c then c else case c of CStr s \<Rightarrow> CStr s | _ \<Rightarrow> CStr (str_of_cell P c))"

definition coerce_string_series :: "pandas \<Rightarrow> series \<Rightarrow> series" where
  "coerce_string_series P s = \<lparr>dtype = ''object'', cells = map (coerce_string_cell P) (cells s)\<rparr>"

text \<open>
  \<^verbatim>\<open>astype(bool)\<close> applies \<^verbatim>\<open>bool(x)\<close> to each element: None is false, NaN is a
  non-zero float and so true.
\<close>

fun cell_bool :: "cell \<Rightarrow> bool" where
  "cell_bool CNone = False"
| "cell_bool CNaN = True"
| "cell_bool (CBool b) = b"
| "cell_bool (CInt n) = (n \<noteq> 0)"
| "cell_bool (CFloat r) = (r \<noteq> 0)"
| "cell_bool (CStr s) = (s \<noteq> [])"

definition astype_bool :: "series \<Rightarrow> series" where
  "astype_bool s = \<lparr>dtype = ''bool'', cells = map (\<lambda>c. CBool (cell_bool c)) (cells s)\<rparr>"

definition eval_failure :: "string \<Rightarrow> string \<Rightarrow> string" where
  "eval_failure expr e = ''Failed to evaluate rule expr='' @ [CHR 0x27] @ expr @ [CHR 0x27] @ '': '' @ e"

text \<open>
  \<^verbatim>\<open>_safe_eval_expr\<close>: every exception inside, its own ValueError included, is
  raised again as a ValueError with the message \<open>eval_failure expr e\<close>.
\<close>

definition safe_eval_expr :: "pandas \<Rightarrow> dataframe \<Rightarrow> string \<Rightarrow> string + series" where
  "safe_eval_expr P df expr =
     (case df_eval P df expr of
        EvRaises e \<Rightarrow> Inl (eval_failure expr e)
      | EvNotSeries \<Rightarrow>
          Inl (eval_failure expr ''Expression did not evaluate to a row-wise Series.'')
      | EvSeries out \<Rightarrow> Inr (if dtype out \<noteq> ''bool'' then astype_bool out else out))"

subsection \<open>Column-level checks\<close>

text \<open>3a) Nullability.\<close>

definition check_nullable :: "string \<Rightarrow> (string \<times> pyval) list \<Rightarrow> series \<Rightarrow> ValidationIssue list" where
  "check_nullable col spec s =
     (let nullable = truthy (dict_get spec ''nullable'' (VBool True)) in
      if \<not> nullable then
        (let n_null = length (filter isna (cells s)) in
         if n_null > 0 then
           [mk_issue ''ERROR'' ''NULLS_NOT_ALLOWED''
              [Txt ''Column '', Quoted col, Txt '' contains '', Count n_null,
               Txt '' nulls but nullable=false.'']
              (Some col) (Some n_null) (Some (map ExCell (take 5 (filter isna (cells s)))))]
         else [])
      else [])"

text \<open>
  3b) Type checks. \<^verbatim>\<open>float.is_integer\<close> is applied to every non-null element and
  raises TypeError on one that is not a float.
\<close>

fun is_integer_cell :: "cell \<Rightarrow> py_error + bool" where
  "is_integer_cell (CFloat r) = Inr (r = of_int \<lfloor>r\<rfloor>)"
| "is_integer_cell _ = Inl TypeError"

fun apply_all :: "('a \<Rightarrow> py_error + bool) \<Rightarrow> 'a list \<Rightarrow> py_error + bool" where
  "apply_all f [] = Inr True"
| "apply_all f (x # xs) =
     (case f x of Inl e \<Rightarrow> Inl e
      | Inr b \<Rightarrow> (case apply_all f xs of Inl e \<Rightarrow> Inl e | Inr bs \<Rightarrow> Inr (b \<and> bs)))"

text \<open>
  The datetime branch: \<^verbatim>\<open>coerced = pd.to_datetime(s, errors="coerce")\<close>, then the
  count of missing values of \<open>coerced\<close> against that of the column.
\<close>

definition datetime_mismatch :: "string \<Rightarrow> series \<Rightarrow> cell list \<Rightarrow> ValidationIssue list" where
  "datetime_mismatch col s coerced =
     (if length (filter isna coerced) \<noteq> length (filter isna (cells s))
      then [mk_issue ''ERROR'' ''DTYPE_MISMATCH''
              [Txt ''Column '', Quoted col,
               Txt '' expected datetime; coercion failed for some values.'']
              (Some col) None None]
      else [])"

definition check_datetime :: "pandas \<Rightarrow> string \<Rightarrow> series \<Rightarrow> py_error + ValidationIssue list" where
  "check_datetime P col s =
     (case to_datetime P s of
        Inl e \<Rightarrow> Inl e
      | Inr coerced \<Rightarrow> Inr (datetime_mismatch col s coerced))"

definition dtype_mismatch :: "string \<Rightarrow> string \<Rightarrow> series \<Rightarrow> ValidationIssue" where
  "dtype_mismatch col expected s =
     mk_issue ''ERROR'' ''DTYPE_MISMATCH''
       [Txt ''Column '', Quoted col, Txt '' expected dtype='', Txt expected, Txt '' but got '',
        Txt (dtype s), Txt ''.'']
       (Some col) None None"

text \<open>
  The expected dtype is \<^verbatim>\<open>str(dtype_expected).lower().strip()\<close>. For a truthy value
  that is not a string (a number, true, a list, a dict) that text is none of the six
  names the branches compare with, so no branch is taken.
\<close>

definition check_dtype ::
  "pandas \<Rightarrow> string \<Rightarrow> (string \<times> pyval) list \<Rightarrow> series \<Rightarrow> py_error + ValidationIssue list" where
  "check_dtype P col spec s =
     (let dtype_expected = dict_get spec ''dtype'' VNone in
      if truthy dtype_expected then
        (case dtype_expected of
           VStr raw \<Rightarrow>
             (let expected = strip (lower raw);
                  actual_norm = normalize_dtype_name (dtype s) in
              if expected = ''string'' then
                Inr (if actual_norm \<noteq> ''string'' \<and> actual_norm \<noteq> ''object''
                     then [dtype_mismatch col ''string'' s] else [])
              else if expected = ''int'' \<or> expected = ''integer'' then
                (if actual_norm \<noteq> ''int'' then
                   (if actual_norm = ''float'' then
                      (case apply_all is_integer_cell (filter (\<lambda>c. \<not> isna c) (cells s)) of
                         Inl e \<Rightarrow> Inl e
                       | Inr True \<Rightarrow>
                           Inr [mk_issue ''WARN'' ''DTYPE_INTLIKE_FLOAT''
                                  [Txt ''Column '', Quoted col,
                                   Txt '' is float but appears int-like; consider casting to int.'']
                                  (Some col) None None]
                       | Inr False \<Rightarrow> Inr [dtype_mismatch col ''int'' s])
                    else Inr [dtype_mismatch col ''int'' s])
                 else Inr [])
              else if expected = ''float'' then
                Inr (if actual_norm \<noteq> ''float'' \<and> actual_norm \<noteq> ''int''
                     then [dtype_mismatch col ''float'' s] else [])
              else if expected = ''bool'' then
                Inr (if actual_norm \<noteq> ''bool'' then [dtype_mismatch col ''bool'' s] else [])
              else if expected = ''datetime'' then
                (if actual_norm \<noteq> ''datetime'' then check_datetime P col s else Inr [])
              else Inr [])
         | _ \<Rightarrow> Inr [])
      else Inr [])"

text \<open>
  3c) Range checks. \<^verbatim>\<open>pd.to_numeric(s, errors="coerce")\<close> gives a number or NaN
  for each element, \<^verbatim>\<open>dropna\<close> keeps the numbers; \<^verbatim>\<open>float(spec["min"])\<close>
  raises on a value that is no number.
\<close>

fun to_numeric :: "pandas \<Rightarrow> cell \<Rightarrow> real option" where
  "to_numeric P CNone = None"
| "to_numeric P CNaN = None"
| "to_numeric P (CBool b) = Some (if b then 1 else 0)"
| "to_numeric P (CInt n) = Some (of_int n)"
| "to_numeric P (CFloat r) = Some r"
| "to_numeric P (CStr s) = numeric_of_str P s"

fun py_float :: "pandas \<Rightarrow> pyval \<Rightarrow> py_error + real" where
  "py_float P VNone = Inl TypeError"
| "py_float P (VBool b) = Inr (if b then 1 else 0)"
| "py_float P (VInt n) = Inr (of_int n)"
| "py_float P (VFloat r) = Inr r"
| "py_float P (VStr s) = (case float_of_str P s of None \<Rightarrow> Inl ValueError | Some r \<Rightarrow> Inr r)"
| "py_float P (VList xs) = Inl TypeError"
| "py_float P (VDict d) = Inl TypeError"

definition dropna_numeric :: "pandas \<Rightarrow> series \<Rightarrow> real list" where
  "dropna_numeric P s = List.map_filter (to_numeric P) (cells s)"

definition check_min :: "pandas \<Rightarrow> string \<Rightarrow> (string \<times> pyval) list \<Rightarrow> real list \<Rightarrow> py_error + ValidationIssue list" where
  "check_min P col spec valid =
     (if dict_has spec ''min'' then
        (case py_float P (dict_get spec ''min'' VNone) of
           Inl e \<Rightarrow> Inl e
         | Inr mn \<Rightarrow>
             (let bad = filter (\<lambda>v. v < mn) valid in
              Inr (if length bad > 0 then
                     [mk_issue ''ERROR'' ''MIN_VIOLATION''
                        [Txt ''Column '', Quoted col, Txt '' has '', Count (length bad),
                         Txt '' values < min('', Num mn, Txt '').'']
                        (Some col) (Some (length bad)) (Some (map ExNum (take 5 bad)))]
                   else [])))
      else Inr [])"

definition check_max :: "pandas \<Rightarrow> string \<Rightarrow> (string \<times> pyval) list \<Rightarrow> real list \<Rightarrow> py_error + ValidationIssue list" where
  "check_max P col spec valid =
     (if dict_has spec ''max'' then
        (case py_float P (dict_get spec ''max'' VNone) of
           Inl e \<Rightarrow> Inl e
         | Inr mx \<Rightarrow>
             (let bad = filter (\<lambda>v. v > mx) valid in
              Inr (if length bad > 0 then
                     [mk_issue ''ERROR'' ''MAX_VIOLATION''
                        [Txt ''Column '', Quoted col, Txt '' has '', Count (length bad),
                         Txt '' values > max('', Num mx, Txt '').'']
                        (Some col) (Some (length bad)) (Some (map ExNum (take 5 bad)))]
                   else [])))
      else Inr [])"

definition check_range ::
  "pandas \<Rightarrow> string \<Rightarrow> (string \<times> pyval) list \<Rightarrow> series \<Rightarrow> py_error + ValidationIssue list" where
  "check_range P col spec s =
     (if dict_has spec ''min'' \<or> dict_has spec ''max'' then
        (let valid = dropna_numeric P s in
         case check_min P col spec valid of
           Inl e \<Rightarrow> Inl e
         | Inr i_min \<Rightarrow>
             (case check_max P col spec valid of
                Inl e \<Rightarrow> Inl e
              | Inr i_max \<Rightarrow> Inr (i_min @ i_max)))
      else Inr [])"

text \<open>
  3d) Allowed set checks. \<^verbatim>\<open>set(allowed)\<close> iterates a list, a string (its
  characters) or a dict (its keys) and raises TypeError on anything else and on an
  element that is not hashable. \<^verbatim>\<open>isin\<close> compares an element with the allowed
  values as Python's \<^verbatim>\<open>==\<close> does: strings with strings, numbers (and booleans) by
  value.
\<close>

fun hashable :: "pyval \<Rightarrow> bool" where
  "hashable (VList xs) = False"
| "hashable (VDict d) = False"
| "hashable _ = True"

fun py_set :: "pyval \<Rightarrow> py_error + pyval list" where
  "py_set (VList xs) = (if list_all hashable xs then Inr xs else Inl TypeError)"
| "py_set (VStr s) = Inr (map (\<lambda>c. VStr [c]) s)"
| "py_set (VDict d) = Inr (map (\<lambda>(k, v). VStr k) d)"
| "py_set _ = Inl TypeError"

fun cell_number :: "cell \<Rightarrow> real option" where
  "cell_number (CBool b) = Some (if b then 1 else 0)"
| "cell_number (CInt n) = Some (of_int n)"
| "cell_number (CFloat r) = Some r"
| "cell_number _ = None"

fun val_number :: "pyval \<Rightarrow> real option" where
  "val_number (VBool b) = Some (if b then 1 else 0)"
| "val_number (VInt n) = Some (of_int n)"
| "val_number (VFloat r) = Some r"
| "val_number _ = None"

definition cell_equals :: "cell \<Rightarrow> pyval \<Rightarrow> bool" where
  "cell_equals c v =
     (case (c, v) of
        (CStr a, VStr b) \<Rightarrow> a = b
      | _ \<Rightarrow> (case (cell_number c, val_number v) of (Some x, Some y) \<Rightarrow> x = y | _ \<Rightarrow> False))"

definition isin :: "cell \<Rightarrow> pyval list \<Rightarrow> bool" where
  "isin c vs = list_ex (cell_equals c) vs"

definition allowed_violations ::
  "string \<Rightarrow> pyval list \<Rightarrow> series \<Rightarrow> series \<Rightarrow> ValidationIssue list" where
  "allowed_violations col allowed_set s ss =
     (let bad_mask = map (\<lambda>c. \<not> isna c \<and> \<not> isin c allowed_set) (cells ss);
          n_bad = count_true bad_mask in
      if n_bad > 0 then
        [mk_issue ''ERROR'' ''ALLOWED_SET_VIOLATION''
           [Txt ''Column '', Quoted col, Txt '' has '', Count n_bad,
            Txt '' values not in allowed set.'']
           (Some col) (Some n_bad)
           (Some (map ExCell (take 5 (select bad_mask (cells s)))))]
      else [])"

definition check_allowed ::
  "pandas \<Rightarrow> string \<Rightarrow> (string \<times> pyval) list \<Rightarrow> series \<Rightarrow> py_error + ValidationIssue list" where
  "check_allowed P col spec s =
     (let allowed = dict_get spec ''allowed'' VNone in
      if allowed \<noteq> VNone then
        (case py_set allowed of
           Inl e \<Rightarrow> Inl e
         | Inr allowed_set \<Rightarrow>
             (case dict_get spec ''dtype'' (VStr []) of
                VStr d \<Rightarrow>
                  (let ss = (if lower d = ''string'' then coerce_string_series P s else s)
                   in Inr (allowed_violations col allowed_set s ss))
              | _ \<Rightarrow> Inl AttributeError))
      else Inr [])"

text \<open>3e) Regex checks.\<close>

definition regex_violations ::
  "pandas \<Rightarrow> string \<Rightarrow> pyval \<Rightarrow> series \<Rightarrow> series \<Rightarrow> py_error + ValidationIssue list" where
  "regex_violations P col pattern s ss =
     (case not_str_match P pattern (cells ss) of
        Inl e \<Rightarrow> Inl e
      | Inr no_match \<Rightarrow>
          (let bad_mask = map (\<lambda>(c, b). \<not> isna c \<and> b) (zip (cells ss) no_match);
               n_bad = count_true bad_mask in
           Inr (if n_bad > 0 then
                  [mk_issue ''ERROR'' ''REGEX_VIOLATION''
                     [Txt ''Column '', Quoted col, Txt '' has '', Count n_bad,
                      Txt '' values not matching regex: '', Val pattern]
                     (Some col) (Some n_bad)
                     (Some (map ExCell (take 5 (select bad_mask (cells s)))))]
                else [])))"

definition check_regex ::
  "pandas \<Rightarrow> string \<Rightarrow> (string \<times> pyval) list \<Rightarrow> series \<Rightarrow> py_error + ValidationIssue list" where
  "check_regex P col spec s =
     (let pattern = dict_get spec ''regex'' VNone in
      if truthy pattern then
        (let ss = coerce_string_series P s in regex_violations P col pattern s ss)
      else Inr [])"

text \<open>
  3f) Uniqueness checks. \<^verbatim>\<open>duplicated(keep=False)\<close> marks every occurrence of a
  value that occurs more than once.
\<close>

definition duplicated :: "'a list \<Rightarrow> bool list" where
  "duplicated xs = map (\<lambda>x. count_list xs x > 1) xs"

definition check_unique :: "string \<Rightarrow> (string \<times> pyval) list \<Rightarrow> series \<Rightarrow> ValidationIssue list" where
  "check_unique col spec s =
     (if truthy (dict_get spec ''unique'' (VBool False)) then
        (let dup_mask = map (\<lambda>(d, c). d \<and> \<not> isna c) (zip (duplicated (cells s)) (cells s));
             n_dup = count_true dup_mask in
         if n_dup > 0 then
           [mk_issue ''ERROR'' ''UNIQUE_VIOLATION''
              [Txt ''Column '', Quoted col, Txt '' has '', Count n_dup,
               Txt '' duplicated entries but unique=true.'']
              (Some col) (Some n_dup) (Some (map ExCell (take 5 (select dup_mask (cells s)))))]
         else [])
      else [])"

text \<open>
  The checks of one column, in the order of the loop body. An exception in one of them
  leaves the loop and \<^verbatim>\<open>validate\<close>.
\<close>

definition column_checks ::
  "pandas \<Rightarrow> string \<Rightarrow> (string \<times> pyval) list \<Rightarrow> series \<Rightarrow> py_error + ValidationIssue list" where
  "column_checks P col spec s =
     (case check_dtype P col spec s of
        Inl e \<Rightarrow> Inl e
      | Inr i_dtype \<Rightarrow>
     (case check_range P col spec s of
        Inl e \<Rightarrow> Inl e
      | Inr i_range \<Rightarrow>
     (case check_allowed P col spec s of
        Inl e \<Rightarrow> Inl e
      | Inr i_allowed \<Rightarrow>
     (case check_regex P col spec s of
        Inl e \<Rightarrow> Inl e
      | Inr i_regex \<Rightarrow>
          Inr (check_nullable col spec s @ i_dtype @ i_range @ i_allowed @ i_regex
               @ check_unique col spec s)))))"

text \<open>
  One turn of the loop over \<^verbatim>\<open>columns_spec.items()\<close>: \<^verbatim>\<open>spec = spec or {}\<close>,
  then a column that is not in the table is skipped (\<^verbatim>\<open>continue\<close>), then
  \<^verbatim>\<open>s = df[col]\<close> and the first \<^verbatim>\<open>spec.get\<close>, which raises when the spec is
  not a dict.
\<close>

definition check_column :: "pandas \<Rightarrow> dataframe \<Rightarrow> string \<Rightarrow> pyval \<Rightarrow> py_error + ValidationIssue list" where
  "check_column P df col spec0 =
     (let spec = py_or spec0 (VDict []) in
      case map_of df col of
        None \<Rightarrow> Inr []
      | Some s \<Rightarrow>
          (case spec of
             VDict d \<Rightarrow> column_checks P col d s
           | _ \<Rightarrow> Inl AttributeError))"

fun check_columns :: "pandas \<Rightarrow> dataframe \<Rightarrow> (string \<times> pyval) list \<Rightarrow> py_error + ValidationIssue list" where
  "check_columns P df [] = Inr []"
| "check_columns P df ((col, spec) # rest) =
     (case check_column P df col spec of
        Inl e \<Rightarrow> Inl e
      | Inr issues \<Rightarrow>
          (case check_columns P df rest of
             Inl e \<Rightarrow> Inl e
           | Inr others \<Rightarrow> Inr (issues @ others)))"

subsection \<open>Required and unexpected columns\<close>

text \<open>
  \<^verbatim>\<open>[c for c, spec in columns_spec.items() if (spec or {}).get("required", False)]\<close>:
  a truthy spec that is not a dict raises AttributeError.
\<close>

fun required_cols :: "(string \<times> pyval) list \<Rightarrow> py_error + string list" where
  "required_cols [] = Inr []"
| "required_cols ((c, spec) # rest) =
     (case py_get (py_or spec (VDict [])) ''required'' (VBool False) of
        Inl e \<Rightarrow> Inl e
      | Inr r \<Rightarrow>
          (case required_cols rest of
             Inl e \<Rightarrow> Inl e
           | Inr cs \<Rightarrow> Inr (if truthy r then c # cs else cs)))"

definition missing_required :: "dataframe \<Rightarrow> string list \<Rightarrow> ValidationIssue list" where
  "missing_required df required =
     (let missing = filter (\<lambda>c. c \<notin> set (df_columns df)) required in
      if missing \<noteq> [] then
        [mk_issue ''ERROR'' ''MISSING_REQUIRED_COLUMNS''
           [Txt ''Missing required columns: '', Names missing]
           None (Some (length missing)) (Some (map ExName missing))]
      else [])"

definition unexpected_columns ::
  "dataframe \<Rightarrow> (string \<times> pyval) list \<Rightarrow> (string \<times> pyval) list \<Rightarrow> ValidationIssue list" where
  "unexpected_columns df schema columns_spec =
     (let allow_extra = truthy (dict_get schema ''allow_extra_columns'' (VBool True)) in
      if \<not> allow_extra then
        (let unexpected = filter (\<lambda>c. \<not> dict_has columns_spec c) (df_columns df) in
         if unexpected \<noteq> [] then
           [mk_issue ''WARN'' ''UNEXPECTED_COLUMNS''
              [Txt ''Unexpected columns found (schema disallows extras): '', Names unexpected]
              None (Some (length unexpected)) (Some (map ExName unexpected))]
         else [])
      else [])"

subsection \<open>Primary key\<close>

text \<open>
  \<^verbatim>\<open>isinstance(pk, list) and all(isinstance(x, str) for x in pk)\<close>, with the names
  when it holds.
\<close>

fun as_str :: "pyval \<Rightarrow> string option" where
  "as_str (VStr s) = Some s"
| "as_str _ = None"

definition str_list :: "pyval \<Rightarrow> string list option" where
  "str_list v = (case v of VList xs \<Rightarrow> those (map as_str xs) | _ \<Rightarrow> None)"

text \<open>
  \<^verbatim>\<open>df.duplicated(subset=pk, keep=False)\<close> compares the rows' key tuples, every
  missing value counting as the same value. \<^verbatim>\<open>df.loc[dup_rows, pk]\<close> keeps the key
  columns in the key's order, and a record has each name once.
\<close>

definition na_key :: "cell \<Rightarrow> cell" where
  "na_key c = (if isna c then CNone else c)"

definition key_of :: "string list \<Rightarrow> (string \<times> cell) list \<Rightarrow> cell option list" where
  "key_of names row = map (\<lambda>c. map_option na_key (map_of row c)) names"

definition project :: "string list \<Rightarrow> (string \<times> cell) list \<Rightarrow> (string \<times> cell) list" where
  "project names row =
     List.map_filter (\<lambda>c. map_option (Pair c) (map_of row c)) (rev (remdups (rev names)))"

definition primary_key_check :: "dataframe \<Rightarrow> (string \<times> pyval) list \<Rightarrow> ValidationIssue list" where
  "primary_key_check df schema =
     (let pk = dict_get schema ''primary_key'' VNone in
      if truthy pk then
        (case str_list pk of
           None \<Rightarrow>
             [mk_issue ''ERROR'' ''SCHEMA_PRIMARY_KEY_INVALID''
                [Txt ''Schema 'primary_key' must be a list of column names.'']
                None None None]
         | Some names \<Rightarrow>
             (let missing_pk = filter (\<lambda>c. c \<notin> set (df_columns df)) names in
              if missing_pk \<noteq> [] then
                [mk_issue ''ERROR'' ''PRIMARY_KEY_MISSING_COLUMNS''
                   [Txt ''Primary key columns missing from table: '', Names missing_pk]
                   None None (Some (map ExName missing_pk))]
              else
                (let dup_rows = duplicated (map (key_of names) (df_rows df));
                     n_dup = count_true dup_rows in
                 if n_dup > 0 then
                   [mk_issue ''ERROR'' ''PRIMARY_KEY_NOT_UNIQUE''
                      [Txt ''Primary key '', Names names, Txt '' is not unique; '', Count n_dup,
                       Txt '' rows are duplicates.'']
                      None (Some n_dup)
                      (Some (map (\<lambda>row. ExRow (project names row))
                               (take 5 (select dup_rows (df_rows df)))))]
                 else [])))
      else [])"

subsection \<open>Table-level rules\<close>

text \<open>
  \<^verbatim>\<open>~ok.fillna(False)\<close>: a missing outcome becomes False, then each outcome is
  negated.
\<close>

definition fillna_False :: "cell \<Rightarrow> cell" where
  "fillna_False c = (if isna c then CBool False else c)"

definition rule_bad_mask :: "series \<Rightarrow> bool list" where
  "rule_bad_mask ok = map (\<lambda>c. \<not> cell_bool (fillna_False c)) (cells ok)"

text \<open>
  One turn of the loop over the rules. A rule passes the \<^verbatim>\<open>expr\<close> test when
  \<^verbatim>\<open>expr\<close> is a non-empty string. Whatever is raised in the \<^verbatim>\<open>try\<close> block is
  caught and becomes an issue whose message is the text of the exception.
\<close>

definition rule_violations ::
  "dataframe \<Rightarrow> pyval \<Rightarrow> string \<Rightarrow> series \<Rightarrow> ValidationIssue list" where
  "rule_violations df name e ok =
     (let bad_mask = rule_bad_mask ok;
          n_bad = count_true bad_mask in
      if n_bad > 0 then
        [mk_issue ''ERROR'' ''TABLE_RULE_VIOLATION''
           [Txt ''Rule '', QuotedVal name, Txt '' failed for '', Count n_bad,
            Txt '' rows. expr='', Txt e]
           None (Some n_bad)
           (Some (map ExRow (take 3 (select bad_mask (df_rows df)))))]
      else [])"

definition rule_invalid :: "pyval \<Rightarrow> ValidationIssue" where
  "rule_invalid r =
     mk_issue ''ERROR'' ''SCHEMA_RULE_INVALID''
       [Txt ''Rule must be dict, got: '', TypeOf r] None None None"

definition rule_missing_expr :: "pyval \<Rightarrow> ValidationIssue" where
  "rule_missing_expr name =
     mk_issue ''ERROR'' ''SCHEMA_RULE_MISSING_EXPR''
       [Txt ''Rule '', QuotedVal name, Txt '' missing 'expr' string.''] None None None"

definition rule_eval_error :: "string \<Rightarrow> ValidationIssue" where
  "rule_eval_error msg = mk_issue ''ERROR'' ''TABLE_RULE_EVAL_ERROR'' [Txt msg] None None None"

definition table_rule :: "pandas \<Rightarrow> dataframe \<Rightarrow> pyval \<Rightarrow> ValidationIssue list" where
  "table_rule P df r =
     (case r of
        VDict d \<Rightarrow>
          (let name = dict_get d ''name'' (VStr ''unnamed_rule'');
               expr = dict_get d ''expr'' VNone in
           case (if truthy expr then as_str expr else None) of
             None \<Rightarrow> [rule_missing_expr name]
           | Some e \<Rightarrow>
               (case safe_eval_expr P df e of
                  Inr ok \<Rightarrow> rule_violations df name e ok
                | Inl msg \<Rightarrow> [rule_eval_error msg]))
      | _ \<Rightarrow> [rule_invalid r])"

definition table_rules :: "pandas \<Rightarrow> dataframe \<Rightarrow> pyval list \<Rightarrow> ValidationIssue list" where
  "table_rules P df rs = concat (map (table_rule P df) rs)"

definition rules_invalid :: ValidationIssue where
  "rules_invalid =
     mk_issue ''ERROR'' ''SCHEMA_RULES_INVALID''
       [Txt ''Schema 'rules' must be a list.''] None None None"

definition rules_check :: "pandas \<Rightarrow> dataframe \<Rightarrow> (string \<times> pyval) list \<Rightarrow> ValidationIssue list" where
  "rules_check P df schema =
     (let rules = py_or (dict_get schema ''rules'' (VList [])) (VList []) in
      if truthy rules then
        (case rules of
           VList rs \<Rightarrow> table_rules P df rs
         | _ \<Rightarrow> [rules_invalid])
      else [])"

subsection \<open>Core validation\<close>

definition no_columns_issue :: ValidationIssue where
  "no_columns_issue =
     mk_issue ''ERROR'' ''SCHEMA_NO_COLUMNS''
       [Txt ''Schema must define a non-empty 'columns' mapping.''] None None None"

definition is_valid :: "ValidationIssue list \<Rightarrow> bool" where
  "is_valid issues = (\<not> list_ex (\<lambda>i. level i = ''ERROR'') issues)"

text \<open>The checks after the test of \<^verbatim>\<open>columns_spec\<close>, in the order of the source.\<close>

definition validate_columns ::
  "pandas \<Rightarrow> dataframe \<Rightarrow> (string \<times> pyval) list \<Rightarrow> (string \<times> pyval) list
    \<Rightarrow> py_error + (bool \<times> ValidationIssue list)" where
  "validate_columns P df schema columns_spec =
     (case required_cols columns_spec of
        Inl e \<Rightarrow> Inl e
      | Inr required \<Rightarrow>
          (case check_columns P df columns_spec of
             Inl e \<Rightarrow> Inl e
           | Inr column_issues \<Rightarrow>
               (let issues = missing_required df required
                      @ unexpected_columns df schema columns_spec
                      @ column_issues
                      @ primary_key_check df schema
                      @ rules_check P df schema
                in Inr (is_valid issues, issues))))"

text \<open>\<^verbatim>\<open>columns_spec = schema.get("columns", {}) or {}\<close>\<close>

definition columns_spec_of :: "(string \<times> pyval) list \<Rightarrow> pyval" where
  "columns_spec_of schema = py_or (dict_get schema ''columns'' (VDict [])) (VDict [])"

definition validate ::
  "pandas \<Rightarrow> dataframe \<Rightarrow> (string \<times> pyval) list \<Rightarrow> py_error + (bool \<times> ValidationIssue list)" where
  "validate P df schema =
     (case columns_spec_of schema of
        VDict columns_spec \<Rightarrow>
          (if length columns_spec = 0 then Inr (False, [no_columns_issue])
           else validate_columns P df schema columns_spec)
      | _ \<Rightarrow> Inr (False, [no_columns_issue]))"

subsection \<open>The table as objects in a store\<close>

text \<open>
  To speak about what a run leaves behind, the Series of a run live in a store: a list
  of Series, an address being an index. The DataFrame is a frame, giving for each column
  the address of its Series (\<^verbatim>\<open>df[col]\<close> returns the column itself, not a copy). A
  pandas call that returns a Series derived from the table (\<^verbatim>\<open>pd.to_numeric\<close>,
  \<^verbatim>\<open>dropna\<close>, \<^verbatim>\<open>_coerce_string_series\<close>, \<^verbatim>\<open>pd.to_datetime\<close>,
  \<^verbatim>\<open>df.eval\<close>, \<^verbatim>\<open>astype\<close>) puts a new Series at a fresh address, bound to a
  local name of \<^verbatim>\<open>validate\<close>. The source has no assignment into \<^verbatim>\<open>df\<close>, into a
  column or into one of these locals, and calls nothing with \<^verbatim>\<open>inplace=True\<close>; so
  the model has no operation that overwrites an address. Masks, counts and example lists
  are values.
\<close>

type_synonym heap = "series list"




definition new_series :: "series \<Rightarrow> heap \<Rightarrow> nat \<times> heap" where
  "new_series s h = (length h, h @ [s])"

text \<open>\<open>extends h h'\<close>: every Series of \<open>h\<close> is in \<open>h'\<close>, at its address, as it was.\<close>

definition extends :: "heap \<Rightarrow> heap \<Rightarrow> bool" where
  "extends h h' = (take (length h) h' = h)"



















subsection \<open>The issue codes of each group of checks\<close>

definition column_codes :: "string list" where
  "column_codes =
     [''NULLS_NOT_ALLOWED'', ''DTYPE_MISMATCH'', ''DTYPE_INTLIKE_FLOAT'', ''MIN_VIOLATION'',
      ''MAX_VIOLATION'', ''ALLOWED_SET_VIOLATION'', ''REGEX_VIOLATION'', ''UNIQUE_VIOLATION'']"

definition primary_key_codes :: "string list" where
  "primary_key_codes =
     [''SCHEMA_PRIMARY_KEY_INVALID'', ''PRIMARY_KEY_MISSING_COLUMNS'', ''PRIMARY_KEY_NOT_UNIQUE'']"

definition rule_codes :: "string list" where
  "rule_codes =
     [''SCHEMA_RULES_INVALID'', ''SCHEMA_RULE_INVALID'', ''SCHEMA_RULE_MISSING_EXPR'',
      ''TABLE_RULE_VIOLATION'', ''TABLE_RULE_EVAL_ERROR'']"

text \<open>An issue of the checks of column \<open>col\<close>.\<close>

definition col_issue :: "string \<Rightarrow> ValidationIssue \<Rightarrow> bool" where
  "col_issue col i = (column i = Some col \<and> code i \<in> set column_codes)"

text \<open>An issue that names no column and has one of the codes \<open>cs\<close>.\<close>

definition table_issue :: "string list \<Rightarrow> ValidationIssue \<Rightarrow> bool" where
  "table_issue cs i = (column i = None \<and> code i \<in> set cs)"

subsection \<open>Predicates on column specs\<close>

text \<open>
  \<open>is_required spec\<close>: the loop over the specs counts the column as required.
  \<open>unconstrained spec\<close>: the spec is empty or null, or a mapping that leaves
  \<open>nullable\<close> true and sets none of \<open>dtype\<close>, \<open>min\<close>, \<open>max\<close>, \<open>allowed\<close>,
  \<open>regex\<close>, \<open>unique\<close>.
\<close>

definition is_required :: "pyval \<Rightarrow> bool" where
  "is_required spec =
     (case py_or spec (VDict []) of
        VDict d \<Rightarrow> truthy (dict_get d ''required'' (VBool False))
      | _ \<Rightarrow> False)"

definition unconstrained :: "pyval \<Rightarrow> bool" where
  "unconstrained spec =
     (case py_or spec (VDict []) of
        VDict d \<Rightarrow>
          truthy (dict_get d ''nullable'' (VBool True))
          \<and> \<not> truthy (dict_get d ''dtype'' VNone)
          \<and> \<not> dict_has d ''min'' \<and> \<not> dict_has d ''max''
          \<and> dict_get d ''allowed'' VNone = VNone
          \<and> \<not> truthy (dict_get d ''regex'' VNone)
          \<and> \<not> truthy (dict_get d ''unique'' (VBool False))
      | _ \<Rightarrow> False)"

text \<open>Two entries of a \<open>columns\<close> mapping that the checks cannot tell apart.\<close>

definition same_spec :: "string \<times> pyval \<Rightarrow> string \<times> pyval \<Rightarrow> bool" where
  "same_spec a b = (fst a = fst b \<and> py_or (snd a) (VDict []) = py_or (snd b) (VDict []))"

subsection \<open>An instance of the library parameters for closed examples\<close>

text \<open>
  \<open>column_eval\<close> is \<^verbatim>\<open>df.eval\<close> on an expression that is the bare name of a
  column: it returns that column, and raises pandas' undefined-name error on a name the
  frame does not have. The examples use no other expression; the string parsers, the
  datetime coercion and the regex match of \<open>example_pandas\<close> accept nothing and are not
  reached by them.
\<close>

definition column_eval :: "dataframe \<Rightarrow> string \<Rightarrow> eval_result" where
  "column_eval df expr =
     (case map_of df expr of
        Some s \<Rightarrow> EvSeries s
      | None \<Rightarrow> EvRaises (''name '' @ [CHR 0x27] @ expr @ [CHR 0x27] @ '' is not defined''))"

definition example_pandas :: pandas where
  "example_pandas =
     \<lparr>df_eval = column_eval,
      to_datetime = (\<lambda>s. Inr (map (\<lambda>c. CNone) (cells s))),
      numeric_of_str = (\<lambda>s. None),
      float_of_str = (\<lambda>s. None),
      str_of_cell = (\<lambda>c. []),
      not_str_match = (\<lambda>p xs. Inl TypeError)\<rparr>"

section \<open>Properties\<close>

subsection \<open>Schema without columns\<close>

lemma no_columns_level_code:
  "level no_columns_issue = ''ERROR'' \<and> code no_columns_issue = ''SCHEMA_NO_COLUMNS''"
  by (simp add: no_columns_issue_def mk_issue_def)

lemma validate_missing: "map_of schema ''columns'' = None \<Longrightarrow> validate P df schema = Inr (False, [no_columns_issue])"
  by (simp add: validate_def columns_spec_of_def dict_get_def py_or_def)

lemma validate_empty: "map_of schema ''columns'' = Some (VDict []) \<Longrightarrow> validate P df schema = Inr (False, [no_columns_issue])"
  by (simp add: validate_def columns_spec_of_def dict_get_def py_or_def)

lemma validate_other: "map_of schema ''columns'' = Some v \<Longrightarrow> (\<forall>d. v \<noteq> VDict d) \<Longrightarrow> validate P df schema = Inr (False, [no_columns_issue])"
  by (cases v) (simp_all add: validate_def columns_spec_of_def dict_get_def py_or_def)


text \<open>
  C1: a schema whose \<open>columns\<close> entry is missing, is an empty mapping, or is not a
  mapping, is rejected at once: the verdict is invalid and the issue list is exactly the
  one ERROR issue with code SCHEMA_NO_COLUMNS, whatever the table and the rest of the
  schema are. No other check adds an issue.
\<close>

theorem schema_no_columns:
  assumes "map_of schema ''columns'' = None
         \<or> map_of schema ''columns'' = Some (VDict [])
         \<or> (\<exists>v. map_of schema ''columns'' = Some v \<and> (\<forall>d. v \<noteq> VDict d))"
  shows "validate P df schema = Inr (False, [no_columns_issue])
       \<and> level no_columns_issue = ''ERROR''
       \<and> code no_columns_issue = ''SCHEMA_NO_COLUMNS''"
proof -
  have "validate P df schema = Inr (False, [no_columns_issue])"
    using assms
  proof (elim disjE exE conjE)
    assume "map_of schema ''columns'' = None"
    then show ?thesis by (rule validate_missing)
  next
    assume "map_of schema ''columns'' = Some (VDict [])"
    then show ?thesis by (rule validate_empty)
  next
    fix v assume "map_of schema ''columns'' = Some v" "\<forall>d. v \<noteq> VDict d"
    then show ?thesis by (rule validate_other)
  qed
  then show ?thesis using no_columns_level_code by simp
qed

theorem schema_no_columns_witness:
  "validate example_pandas [(''a'', \<lparr>dtype = ''int64'', cells = [CInt 1]\<rparr>)]
     [(''table_name'', VStr ''t''), (''rules'', VStr ''x'')]
     = Inr (False, [no_columns_issue])
   \<and> validate example_pandas [] [(''columns'', VList [VStr ''a''])] = Inr (False, [no_columns_issue])
   \<and> validate example_pandas [] [(''columns'', VDict [])] = Inr (False, [no_columns_issue])"
  using schema_no_columns [of "[(''table_name'', VStr ''t''), (''rules'', VStr ''x'')]" example_pandas
          "[(''a'', \<lparr>dtype = ''int64'', cells = [CInt 1]\<rparr>)]"]
        schema_no_columns [of "[(''columns'', VList [VStr ''a''])]" example_pandas "[]"]
        schema_no_columns [of "[(''columns'', VDict [])]" example_pandas "[]"]
  by simp

subsection \<open>Where each issue comes from\<close>

lemma col_issue_mk:
  "c \<in> set column_codes \<Longrightarrow> col_issue col (mk_issue l c m (Some col) n ex)"
  by (simp add: col_issue_def mk_issue_def)

lemma check_nullable_issue:
  "i \<in> set (check_nullable col spec s) \<Longrightarrow> col_issue col i"
  by (auto simp: check_nullable_def Let_def column_codes_def intro!: col_issue_mk split: if_splits)

lemma check_dtype_issue:
  "check_dtype P col spec s = Inr is \<Longrightarrow> i \<in> set is \<Longrightarrow> col_issue col i"
  by (auto simp: check_dtype_def check_datetime_def datetime_mismatch_def Let_def
      dtype_mismatch_def column_codes_def intro!: col_issue_mk
      split: if_splits pyval.splits sum.splits bool.splits)

lemma check_min_issue:
  "check_min P col spec v = Inr is \<Longrightarrow> i \<in> set is \<Longrightarrow> col_issue col i"
  by (auto simp: check_min_def Let_def column_codes_def intro!: col_issue_mk
      split: if_splits sum.splits)

lemma check_max_issue:
  "check_max P col spec v = Inr is \<Longrightarrow> i \<in> set is \<Longrightarrow> col_issue col i"
  by (auto simp: check_max_def Let_def column_codes_def intro!: col_issue_mk
      split: if_splits sum.splits)

lemma check_range_issue:
  "check_range P col spec s = Inr is \<Longrightarrow> i \<in> set is \<Longrightarrow> col_issue col i"
  by (auto simp: check_range_def Let_def split: if_splits sum.splits
      dest: check_min_issue check_max_issue)

lemma check_allowed_issue:
  "check_allowed P col spec s = Inr is \<Longrightarrow> i \<in> set is \<Longrightarrow> col_issue col i"
  by (auto simp: check_allowed_def allowed_violations_def Let_def column_codes_def
      intro!: col_issue_mk
      split: if_splits sum.splits pyval.splits)

lemma check_regex_issue:
  "check_regex P col spec s = Inr is \<Longrightarrow> i \<in> set is \<Longrightarrow> col_issue col i"
  by (auto simp: check_regex_def regex_violations_def Let_def column_codes_def
      intro!: col_issue_mk
      split: if_splits sum.splits)

lemma check_unique_issue:
  "i \<in> set (check_unique col spec s) \<Longrightarrow> col_issue col i"
  by (auto simp: check_unique_def Let_def column_codes_def intro!: col_issue_mk split: if_splits)

lemma column_checks_issue:
  "column_checks P col spec s = Inr is \<Longrightarrow> i \<in> set is \<Longrightarrow> col_issue col i"
  by (auto simp: column_checks_def split: sum.splits
      dest: check_nullable_issue check_dtype_issue check_range_issue check_allowed_issue
            check_regex_issue check_unique_issue)

lemma check_column_issue:
  "check_column P df col spec = Inr is \<Longrightarrow> i \<in> set is \<Longrightarrow>
     col_issue col i \<and> col \<in> set (df_columns df)"
  by (auto simp: check_column_def Let_def df_columns_def split: option.splits pyval.splits
      dest: column_checks_issue map_of_SomeD intro: rev_image_eqI)

lemma check_columns_issue:
  "check_columns P df cs = Inr is \<Longrightarrow> i \<in> set is \<Longrightarrow>
     \<exists>col. col_issue col i \<and> col \<in> set (df_columns df) \<and> col \<in> fst ` set cs"
proof (induction cs arbitrary: "is")
  case Nil
  then show ?case by simp
next
  case (Cons a cs)
  obtain col spec where a: "a = (col, spec)" by (cases a)
  from Cons.prems(1) a obtain i1 i2 where
    c1: "check_column P df col spec = Inr i1" and c2: "check_columns P df cs = Inr i2"
    and "is": "is = i1 @ i2"
    by (auto split: sum.splits)
  from Cons.prems(2) "is" consider "i \<in> set i1" | "i \<in> set i2" by auto
  then show ?case
  proof cases
    case 1
    with c1 have "col_issue col i \<and> col \<in> set (df_columns df)" by (rule check_column_issue)
    then show ?thesis using a by auto
  next
    case 2
    with Cons.IH [OF c2] show ?thesis by auto
  qed
qed


lemma table_issue_mk:
  "c \<in> set cs \<Longrightarrow> table_issue cs (mk_issue l c m None n ex)"
  by (simp add: table_issue_def mk_issue_def)

lemma missing_required_issue:
  "i \<in> set (missing_required df req) \<Longrightarrow> table_issue [''MISSING_REQUIRED_COLUMNS''] i"
  by (auto simp: missing_required_def Let_def intro!: table_issue_mk split: if_splits)

lemma unexpected_columns_issue:
  "i \<in> set (unexpected_columns df schema cs) \<Longrightarrow> table_issue [''UNEXPECTED_COLUMNS''] i"
  by (auto simp: unexpected_columns_def Let_def intro!: table_issue_mk split: if_splits)

lemma primary_key_check_issue:
  "i \<in> set (primary_key_check df schema) \<Longrightarrow> table_issue primary_key_codes i"
  by (auto simp: primary_key_check_def Let_def primary_key_codes_def intro!: table_issue_mk
      split: if_splits option.splits)

lemma table_rule_issue:
  "i \<in> set (table_rule P df r) \<Longrightarrow> table_issue rule_codes i"
  by (auto simp: table_rule_def rule_violations_def rule_invalid_def rule_missing_expr_def
      rule_eval_error_def Let_def rule_codes_def intro!: table_issue_mk
      split: if_splits option.splits pyval.splits sum.splits)

lemma table_rules_issue:
  "i \<in> set (table_rules P df rs) \<Longrightarrow> table_issue rule_codes i"
  by (auto simp: table_rules_def dest: table_rule_issue)

lemma rules_check_issue:
  "i \<in> set (rules_check P df schema) \<Longrightarrow> table_issue rule_codes i"
  by (auto simp: rules_check_def rules_invalid_def Let_def rule_codes_def intro!: table_issue_mk
      split: if_splits pyval.splits dest: table_rules_issue)

lemma validate_columns_Inr:
  assumes "validate_columns P df schema cs = Inr (v, issues)"
  obtains req ci where "required_cols cs = Inr req" "check_columns P df cs = Inr ci"
    "issues = missing_required df req @ unexpected_columns df schema cs @ ci
              @ primary_key_check df schema @ rules_check P df schema"
    "v = is_valid issues"
  using assms by (auto simp: validate_columns_def Let_def split: sum.splits)

lemma validate_nonempty:
  "columns_spec_of schema = VDict cs \<Longrightarrow> cs \<noteq> [] \<Longrightarrow>
     validate P df schema = validate_columns P df schema cs"
  by (simp add: validate_def)


subsection \<open>Missing required columns\<close>

lemma filter_code_empty:
  "(\<And>i. i \<in> set xs \<Longrightarrow> code i \<noteq> c) \<Longrightarrow> filter (\<lambda>i. code i = c) xs = []"
  by (simp add: filter_empty_conv)

lemma check_column_absent:
  "col \<notin> set (df_columns df) \<Longrightarrow> check_column P df col spec = Inr []"
  by (simp add: check_column_def df_columns_def map_of_eq_None_iff [THEN iffD2])

lemma is_valid_append:
  "is_valid (xs @ ys) = (is_valid xs \<and> is_valid ys)"
  by (auto simp: is_valid_def list_ex_iff)

lemma is_valid_Cons:
  "is_valid (x # xs) = (level x \<noteq> ''ERROR'' \<and> is_valid xs)"
  by (auto simp: is_valid_def)

text \<open>
  C2: on a schema with a non-empty \<open>columns\<close> mapping, when the table lacks at least
  one required column, the issues that \<^verbatim>\<open>validate\<close> returns hold exactly one issue
  with code MISSING_REQUIRED_COLUMNS: an ERROR whose examples are the missing required
  names, in schema order, and whose \<open>n_rows\<close> is their number; the verdict is invalid.
  A schema column that the table does not have is skipped by the column loop, whatever
  its spec, and no returned issue names a column that is not in the table.
\<close>

theorem missing_required_columns:
  assumes cols: "columns_spec_of schema = VDict cs" "cs \<noteq> []"
      and run: "validate P df schema = Inr (valid, issues)"
      and req: "required_cols cs = Inr required"
      and mis: "missing = filter (\<lambda>c. c \<notin> set (df_columns df)) required" "missing \<noteq> []"
  shows "filter (\<lambda>i. code i = ''MISSING_REQUIRED_COLUMNS'') issues =
           [mk_issue ''ERROR'' ''MISSING_REQUIRED_COLUMNS''
              [Txt ''Missing required columns: '', Names missing]
              None (Some (length missing)) (Some (map ExName missing))]
       \<and> \<not> valid
       \<and> (\<forall>c spec. c \<notin> set (df_columns df) \<longrightarrow> check_column P df c spec = Inr [])
       \<and> (\<forall>i \<in> set issues. \<forall>c. column i = Some c \<longrightarrow> c \<in> set (df_columns df))"
proof -
  let ?m = "mk_issue ''ERROR'' ''MISSING_REQUIRED_COLUMNS''
              [Txt ''Missing required columns: '', Names missing]
              None (Some (length missing)) (Some (map ExName missing))"
  from cols run have "validate_columns P df schema cs = Inr (valid, issues)"
    by (simp add: validate_nonempty)
  then obtain req' ci where r: "required_cols cs = Inr req'"
    and ci: "check_columns P df cs = Inr ci"
    and iss: "issues = missing_required df req' @ unexpected_columns df schema cs @ ci
                @ primary_key_check df schema @ rules_check P df schema"
    and v: "valid = is_valid issues"
    by (rule validate_columns_Inr)
  from r req have [simp]: "req' = required" by simp
  have mr: "missing_required df required = [?m]"
    using mis by (simp add: missing_required_def Let_def)
  have f1: "filter (\<lambda>i. code i = ''MISSING_REQUIRED_COLUMNS'') [?m] = [?m]"
    by (simp add: mk_issue_def)
  have f2: "filter (\<lambda>i. code i = ''MISSING_REQUIRED_COLUMNS'') (unexpected_columns df schema cs) = []"
    by (rule filter_code_empty) (auto dest!: unexpected_columns_issue simp: table_issue_def)
  have f3: "filter (\<lambda>i. code i = ''MISSING_REQUIRED_COLUMNS'') ci = []"
    by (rule filter_code_empty)
       (auto dest!: check_columns_issue [OF ci] simp: col_issue_def column_codes_def)
  have f4: "filter (\<lambda>i. code i = ''MISSING_REQUIRED_COLUMNS'') (primary_key_check df schema) = []"
    by (rule filter_code_empty)
       (auto dest!: primary_key_check_issue simp: table_issue_def primary_key_codes_def)
  have f5: "filter (\<lambda>i. code i = ''MISSING_REQUIRED_COLUMNS'') (rules_check P df schema) = []"
    by (rule filter_code_empty)
       (auto dest!: rules_check_issue simp: table_issue_def rule_codes_def)
  have A: "filter (\<lambda>i. code i = ''MISSING_REQUIRED_COLUMNS'') issues = [?m]"
    unfolding iss by (simp only: filter_append \<open>req' = required\<close> mr f1 f2 f3 f4 f5 append_Nil2)
  have "level ?m = ''ERROR''"
    by (simp add: mk_issue_def)
  then have B: "\<not> valid"
    unfolding v iss by (simp add: is_valid_Cons mr)
  have C: "\<forall>c spec. c \<notin> set (df_columns df) \<longrightarrow> check_column P df c spec = Inr []"
    by (simp add: check_column_absent)
  have D: "\<forall>i \<in> set issues. \<forall>c. column i = Some c \<longrightarrow> c \<in> set (df_columns df)"
  proof (intro ballI allI impI)
    fix i c assume i: "i \<in> set issues" and c: "column i = Some c"
    from i iss consider "i \<in> set (missing_required df req')"
      | "i \<in> set (unexpected_columns df schema cs)" | "i \<in> set ci"
      | "i \<in> set (primary_key_check df schema)" | "i \<in> set (rules_check P df schema)"
      by auto
    then show "c \<in> set (df_columns df)"
    proof cases
      case 1 then show ?thesis using c by (auto dest!: missing_required_issue simp: table_issue_def)
    next
      case 2 then show ?thesis using c by (auto dest!: unexpected_columns_issue simp: table_issue_def)
    next
      case 3 then show ?thesis using c by (auto dest!: check_columns_issue [OF ci] simp: col_issue_def)
    next
      case 4 then show ?thesis using c by (auto dest!: primary_key_check_issue simp: table_issue_def)
    next
      case 5 then show ?thesis using c by (auto dest!: rules_check_issue simp: table_issue_def)
    qed
  qed
  from A B C D show ?thesis by blast
qed


text \<open>The definitions a run on a concrete schema and table unfolds.\<close>

lemmas eval_simps =
  validate_def validate_columns_def columns_spec_of_def py_or_def dict_get_def dict_has_def
  py_get_def missing_required_def unexpected_columns_def df_columns_def check_column_def
  column_checks_def check_nullable_def check_dtype_def check_range_def check_min_def
  check_max_def check_allowed_def check_regex_def check_unique_def primary_key_check_def
  rules_check_def table_rules_def table_rule_def is_valid_def mk_issue_def Let_def
  dtype_mismatch_def normalize_dtype_name_def startswith_def lower_def lower_char_def
  strip_def is_space_def str_list_def safe_eval_expr_def rule_bad_mask_def fillna_False_def
  astype_bool_def count_true_def select_def check_datetime_def datetime_mismatch_def
  allowed_violations_def regex_violations_def rule_violations_def rule_invalid_def
  rule_missing_expr_def rule_eval_error_def rules_invalid_def

theorem missing_required_columns_witness:
  "validate example_pandas
     [(''Class'', \<lparr>dtype = ''object'', cells = [CStr ''Simple'', CNaN]\<rparr>)]
     [(''columns'', VDict
        [(''Start_time'', VDict [(''required'', VBool True), (''min'', VInt 0)]),
         (''Class'', VDict [(''required'', VBool True)]),
         (''Duration'', VDict [(''required'', VBool True)]),
         (''Note'', VNone)])]
   = Inr (False,
       [mk_issue ''ERROR'' ''MISSING_REQUIRED_COLUMNS''
          [Txt ''Missing required columns: '', Names [''Start_time'', ''Duration'']]
          None (Some 2) (Some [ExName ''Start_time'', ExName ''Duration''])])
   \<and> filter (\<lambda>i. code i = ''MISSING_REQUIRED_COLUMNS'')
       [mk_issue ''ERROR'' ''MISSING_REQUIRED_COLUMNS''
          [Txt ''Missing required columns: '', Names [''Start_time'', ''Duration'']]
          None (Some 2) (Some [ExName ''Start_time'', ExName ''Duration''])]
     = [mk_issue ''ERROR'' ''MISSING_REQUIRED_COLUMNS''
          [Txt ''Missing required columns: '', Names [''Start_time'', ''Duration'']]
          None (Some (length [''Start_time'', ''Duration'']))
          (Some (map ExName [''Start_time'', ''Duration'']))]"
proof -
  let ?df = "[(''Class'', \<lparr>dtype = ''object'', cells = [CStr ''Simple'', CNaN]\<rparr>)]"
  let ?cs = "[(''Start_time'', VDict [(''required'', VBool True), (''min'', VInt 0)]),
         (''Class'', VDict [(''required'', VBool True)]),
         (''Duration'', VDict [(''required'', VBool True)]),
         (''Note'', VNone)]"
  let ?schema = "[(''columns'', VDict ?cs)]"
  let ?m = "mk_issue ''ERROR'' ''MISSING_REQUIRED_COLUMNS''
          [Txt ''Missing required columns: '', Names [''Start_time'', ''Duration'']]
          None (Some 2) (Some [ExName ''Start_time'', ExName ''Duration''])"
  have h1: "columns_spec_of ?schema = VDict ?cs"
    by (simp add: columns_spec_of_def py_or_def dict_get_def)
  have h2: "?cs \<noteq> []" by simp
  have h4: "required_cols ?cs = Inr [''Start_time'', ''Class'', ''Duration'']"
    by (simp add: py_get_def py_or_def dict_get_def)
  have h5: "[''Start_time'', ''Duration''] =
      filter (\<lambda>c. c \<notin> set (df_columns ?df)) [''Start_time'', ''Class'', ''Duration'']"
    by (simp add: df_columns_def)
  have h6: "[''Start_time'', ''Duration''] \<noteq> []" by simp
  have h3: "validate example_pandas ?df ?schema = Inr (False, [?m])"
    by (simp add: eval_simps h4)
  from missing_required_columns [OF h1 h2 h3 h4 h5 h6] h3 show ?thesis
    by simp
qed

subsection \<open>Range checks\<close>

















subsection \<open>Schemas that constrain nothing\<close>

lemma column_checks_unconstrained:
  assumes "unconstrained (VDict d)" "d \<noteq> []"
  shows "column_checks P col d s = Inr []"
  using assms
  by (simp add: unconstrained_def py_or_def column_checks_def check_nullable_def check_dtype_def
      check_range_def check_allowed_def check_regex_def check_unique_def Let_def)

lemma column_checks_empty_spec: "column_checks P col [] s = Inr []"
  by (simp add: column_checks_def check_nullable_def check_dtype_def dict_get_def dict_has_def
      check_range_def check_allowed_def check_regex_def check_unique_def Let_def)

lemma unconstrained_truthy:
  assumes "unconstrained spec" "truthy spec"
  obtains d where "spec = VDict d" "d \<noteq> []"
  using assms by (cases spec) (simp_all add: unconstrained_def py_or_def)

lemma check_column_unconstrained:
  assumes "unconstrained spec"
  shows "check_column P df col spec = Inr []"
proof (cases "truthy spec")
  case False
  then show ?thesis
    by (simp add: check_column_def py_or_def column_checks_empty_spec split: option.splits)
next
  case True
  with assms obtain d where d: "spec = VDict d" "d \<noteq> []"
    by (rule unconstrained_truthy)
  with assms have "column_checks P col d s = Inr []" for s
    by (simp add: column_checks_unconstrained)
  with d show ?thesis
    by (simp add: check_column_def py_or_def split: option.splits)
qed

lemma check_columns_unconstrained:
  "list_all (\<lambda>(c, spec). unconstrained spec) cs \<Longrightarrow> check_columns P df cs = Inr []"
proof (induction cs)
  case Nil
  then show ?case by simp
next
  case (Cons a cs)
  obtain c spec where a: "a = (c, spec)" by (cases a)
  with Cons show ?case by (simp add: check_column_unconstrained)
qed

lemma unconstrained_get:
  "unconstrained spec \<Longrightarrow>
     \<exists>r. py_get (py_or spec (VDict [])) ''required'' (VBool False) = Inr r \<and> truthy r = is_required spec"
  by (cases "py_or spec (VDict [])") (simp_all add: unconstrained_def is_required_def py_get_def)

lemma required_cols_unconstrained:
  "list_all (\<lambda>(c, spec). unconstrained spec) cs \<Longrightarrow>
     required_cols cs = Inr (map fst (filter (\<lambda>(c, spec). is_required spec) cs))"
proof (induction cs)
  case Nil
  then show ?case by simp
next
  case (Cons a cs)
  obtain c spec where a: "a = (c, spec)" by (cases a)
  with Cons.prems have u: "unconstrained spec" by simp
  then obtain r where r: "py_get (py_or spec (VDict [])) ''required'' (VBool False) = Inr r"
    "truthy r = is_required spec"
    using unconstrained_get by blast
  from Cons have "required_cols cs = Inr (map fst (filter (\<lambda>(c, spec). is_required spec) cs))"
    by simp
  with r a show ?case by simp
qed


text \<open>
  C4 as stated does not hold. A spec may leave \<open>nullable\<close> true and set none of \<open>min\<close>, \<open>max\<close>,
  \<open>allowed\<close>, \<open>regex\<close>, \<open>unique\<close>, and still declare a \<open>dtype\<close>: a column
  of strings declared \<open>int\<close> gives a DTYPE_MISMATCH error, so the table is not valid.
\<close>

theorem unconstrained_schema_counterexample:
  "validate example_pandas
     [(''a'', \<lparr>dtype = ''object'', cells = [CStr ''x'']\<rparr>)]
     [(''columns'', VDict [(''a'', VDict [(''nullable'', VBool True), (''dtype'', VStr ''int'')])])]
   = Inr (False,
       [mk_issue ''ERROR'' ''DTYPE_MISMATCH''
          [Txt ''Column '', Quoted ''a'', Txt '' expected dtype='', Txt ''int'',
           Txt '' but got '', Txt ''object'', Txt ''.'']
          (Some ''a'') None None])"
  by (simp add: eval_simps)

text \<open>
  C4 (amended): when every column spec is unconstrained (\<open>nullable\<close> true, no
  \<open>dtype\<close>, \<open>min\<close>, \<open>max\<close>, \<open>allowed\<close>, \<open>regex\<close>, \<open>unique\<close>), the table has
  every required column, the schema has no primary key and no rules, and extra columns
  are allowed or the table has none, then validation returns VALID with no issue,
  whatever the table holds.
\<close>

theorem unconstrained_schema_valid:
  assumes cols: "columns_spec_of schema = VDict cs" "cs \<noteq> []"
      and specs: "list_all (\<lambda>(c, spec). unconstrained spec) cs"
      and present: "list_all (\<lambda>(c, spec). is_required spec \<longrightarrow> c \<in> set (df_columns df)) cs"
      and no_pk: "\<not> truthy (dict_get schema ''primary_key'' VNone)"
      and no_rules: "\<not> truthy (dict_get schema ''rules'' (VList []))"
      and extra: "truthy (dict_get schema ''allow_extra_columns'' (VBool True))
                  \<or> list_all (dict_has cs) (df_columns df)"
  shows "validate P df schema = Inr (True, [])"
proof -
  have req: "required_cols cs = Inr (map fst (filter (\<lambda>(c, spec). is_required spec) cs))"
    using specs by (rule required_cols_unconstrained)
  have "filter (\<lambda>c. c \<notin> set (df_columns df))
          (map fst (filter (\<lambda>(c, spec). is_required spec) cs)) = []"
    using present by (auto simp: filter_empty_conv list_all_iff)
  then have mr: "missing_required df (map fst (filter (\<lambda>(c, spec). is_required spec) cs)) = []"
    by (simp add: missing_required_def)
  have un: "unexpected_columns df schema cs = []"
    using extra by (auto simp: unexpected_columns_def Let_def filter_empty_conv list_all_iff)
  have ci: "check_columns P df cs = Inr []"
    using specs by (rule check_columns_unconstrained)
  have pk: "primary_key_check df schema = []"
    using no_pk by (simp add: primary_key_check_def)
  have ru: "rules_check P df schema = []"
    using no_rules by (simp add: rules_check_def py_or_def)
  have "validate_columns P df schema cs = Inr (True, [])"
    by (simp add: validate_columns_def req mr un ci pk ru is_valid_def)
  with cols show ?thesis by (simp add: validate_nonempty)
qed

theorem unconstrained_schema_valid_witness:
  "validate example_pandas
     [(''a'', \<lparr>dtype = ''object'', cells = [CStr ''x'', CNaN]\<rparr>),
      (''b'', \<lparr>dtype = ''int64'', cells = [CInt 1, CInt 1]\<rparr>)]
     [(''allow_extra_columns'', VBool False),
      (''columns'', VDict [(''a'', VDict [(''required'', VBool True), (''nullable'', VBool True)]),
                         (''b'', VNone), (''c'', VDict [])])]
   = Inr (True, [])"
proof -
  let ?df = "[(''a'', \<lparr>dtype = ''object'', cells = [CStr ''x'', CNaN]\<rparr>),
      (''b'', \<lparr>dtype = ''int64'', cells = [CInt 1, CInt 1]\<rparr>)]"
  let ?cs = "[(''a'', VDict [(''required'', VBool True), (''nullable'', VBool True)]),
                         (''b'', VNone), (''c'', VDict [])]"
  let ?schema = "[(''allow_extra_columns'', VBool False), (''columns'', VDict ?cs)]"
  have 1: "columns_spec_of ?schema = VDict ?cs"
    by (simp add: columns_spec_of_def py_or_def dict_get_def)
  have 2: "?cs \<noteq> []" by simp
  have 3: "list_all (\<lambda>(c, spec). unconstrained spec) ?cs"
    by (simp add: unconstrained_def py_or_def dict_get_def dict_has_def)
  have 4: "list_all (\<lambda>(c, spec). is_required spec \<longrightarrow> c \<in> set (df_columns ?df)) ?cs"
    by (simp add: is_required_def py_or_def dict_get_def df_columns_def)
  have 5: "\<not> truthy (dict_get ?schema ''primary_key'' VNone)"
    by (simp add: dict_get_def)
  have 6: "\<not> truthy (dict_get ?schema ''rules'' (VList []))"
    by (simp add: dict_get_def)
  have 7: "truthy (dict_get ?schema ''allow_extra_columns'' (VBool True))
                  \<or> list_all (dict_has ?cs) (df_columns ?df)"
    by (simp add: dict_get_def dict_has_def df_columns_def)
  show ?thesis by (rule unconstrained_schema_valid [OF 1 2 3 4 5 6 7])
qed

subsection \<open>Primary key of the schema\<close>

lemma those_map_as_str:
  "those (map as_str xs) = Some names \<longleftrightarrow> xs = map VStr names"
proof (induction xs arbitrary: names)
  case Nil
  then show ?case by auto
next
  case (Cons x xs)
  show ?case
  proof (cases x)
    case (VStr s)
    with Cons show ?thesis by (cases names) (auto split: option.splits)
  qed (auto split: option.splits)
qed

lemma str_list_Some_iff: "str_list v = Some names \<longleftrightarrow> v = VList (map VStr names)"
  by (cases v) (simp_all add: str_list_def those_map_as_str)

lemma str_list_None_iff: "str_list v = None \<longleftrightarrow> (\<forall>names. v \<noteq> VList (map VStr names))"
  using str_list_Some_iff [of v] by (cases "str_list v") auto

lemma primary_key_check_invalid:
  "truthy (dict_get schema ''primary_key'' VNone) \<Longrightarrow>
   str_list (dict_get schema ''primary_key'' VNone) = None \<Longrightarrow>
   primary_key_check df schema =
     [mk_issue ''ERROR'' ''SCHEMA_PRIMARY_KEY_INVALID''
                [Txt ''Schema 'primary_key' must be a list of column names.'']
                None None None]"
  by (simp add: primary_key_check_def)

lemma primary_key_check_falsy:
  "\<not> truthy (dict_get schema ''primary_key'' VNone) \<Longrightarrow> primary_key_check df schema = []"
  by (simp add: primary_key_check_def)

lemma primary_key_check_names:
  "str_list (dict_get schema ''primary_key'' VNone) = Some names \<Longrightarrow>
   i \<in> set (primary_key_check df schema) \<Longrightarrow> code i \<noteq> ''SCHEMA_PRIMARY_KEY_INVALID''"
  by (auto simp: primary_key_check_def Let_def mk_issue_def split: if_splits)


lemma filter_code_columns:
  "check_columns P df cs = Inr ci \<Longrightarrow> c \<notin> set column_codes \<Longrightarrow>
     filter (\<lambda>i. code i = c) ci = []"
  by (rule filter_code_empty) (auto dest!: check_columns_issue simp: col_issue_def)

lemma filter_code_missing_required:
  "c \<noteq> ''MISSING_REQUIRED_COLUMNS'' \<Longrightarrow>
     filter (\<lambda>i. code i = c) (missing_required df req) = []"
  by (rule filter_code_empty) (auto dest!: missing_required_issue simp: table_issue_def)

lemma filter_code_unexpected:
  "c \<noteq> ''UNEXPECTED_COLUMNS'' \<Longrightarrow>
     filter (\<lambda>i. code i = c) (unexpected_columns df schema cs) = []"
  by (rule filter_code_empty) (auto dest!: unexpected_columns_issue simp: table_issue_def)

lemma filter_code_primary_key:
  "c \<notin> set primary_key_codes \<Longrightarrow>
     filter (\<lambda>i. code i = c) (primary_key_check df schema) = []"
  by (rule filter_code_empty) (auto dest!: primary_key_check_issue simp: table_issue_def)

lemma filter_code_rules:
  "c \<notin> set rule_codes \<Longrightarrow> filter (\<lambda>i. code i = c) (rules_check P df schema) = []"
  by (rule filter_code_empty) (auto dest!: rules_check_issue simp: table_issue_def)

text \<open>
  C6 as stated does not hold. An empty \<open>primary_key\<close> sequence is falsy: the primary-key block is skipped, no
  SCHEMA_PRIMARY_KEY_INVALID issue is emitted, and the table is valid although its
  \<open>id\<close> column repeats a value.
\<close>

theorem primary_key_counterexample:
  "validate example_pandas
     [(''id'', \<lparr>dtype = ''int64'', cells = [CInt 1, CInt 1, CInt 2]\<rparr>)]
     [(''columns'', VDict [(''id'', VDict [(''dtype'', VStr ''int'')])]),
      (''primary_key'', VList [])]
   = Inr (True, [])"
  by (simp add: eval_simps)

text \<open>
  C6 (amended): on a schema with a non-empty \<open>columns\<close> mapping, when
  \<open>primary_key\<close> is truthy and is not a list of strings, the issues that
  \<^verbatim>\<open>validate\<close> returns hold exactly one issue with code
  SCHEMA_PRIMARY_KEY_INVALID, an ERROR, the verdict is invalid, and the primary-key
  check gives the same for every table. When \<open>primary_key\<close> is absent or falsy (null,
  an empty sequence) or is a list of strings, no issue has that code.
\<close>

theorem primary_key_invalid:
  assumes cols: "columns_spec_of schema = VDict cs" "cs \<noteq> []"
      and run: "validate P df schema = Inr (valid, issues)"
      and pk: "pk = dict_get schema ''primary_key'' VNone"
  shows "(truthy pk \<and> (\<forall>names. pk \<noteq> VList (map VStr names)) \<longrightarrow>
            filter (\<lambda>i. code i = ''SCHEMA_PRIMARY_KEY_INVALID'') issues =
              [mk_issue ''ERROR'' ''SCHEMA_PRIMARY_KEY_INVALID''
                 [Txt ''Schema 'primary_key' must be a list of column names.''] None None None]
            \<and> \<not> valid
            \<and> (\<forall>df'. primary_key_check df' schema = primary_key_check df schema))
       \<and> (\<not> truthy pk \<or> (\<exists>names. pk = VList (map VStr names)) \<longrightarrow>
            filter (\<lambda>i. code i = ''SCHEMA_PRIMARY_KEY_INVALID'') issues = [])"
proof -
  let ?c = "''SCHEMA_PRIMARY_KEY_INVALID''"
  let ?m = "mk_issue ''ERROR'' ''SCHEMA_PRIMARY_KEY_INVALID''
                 [Txt ''Schema 'primary_key' must be a list of column names.''] None None None"
  from cols run have "validate_columns P df schema cs = Inr (valid, issues)"
    by (simp add: validate_nonempty)
  then obtain req ci where ci: "check_columns P df cs = Inr ci"
    and iss: "issues = missing_required df req @ unexpected_columns df schema cs @ ci
                @ primary_key_check df schema @ rules_check P df schema"
    and v: "valid = is_valid issues"
    by (rule validate_columns_Inr)
  have f: "filter (\<lambda>i. code i = ?c) issues = filter (\<lambda>i. code i = ?c) (primary_key_check df schema)"
    unfolding iss
    by (simp add: filter_code_missing_required filter_code_unexpected filter_code_rules
        filter_code_columns [OF ci] column_codes_def rule_codes_def)
  have A: "filter (\<lambda>i. code i = ?c) issues = [?m] \<and> \<not> valid
           \<and> (\<forall>df'. primary_key_check df' schema = primary_key_check df schema)"
    if t: "truthy pk" and n: "\<forall>names. pk \<noteq> VList (map VStr names)"
  proof -
    from n have "str_list pk = None" by (simp add: str_list_None_iff)
    with t pk have c: "primary_key_check df' schema = [?m]" for df'
      by (simp add: primary_key_check_invalid)
    have lm: "level ?m = ''ERROR''" and cm: "code ?m = ?c" by (simp_all add: mk_issue_def)
    have "filter (\<lambda>i. code i = ?c) issues = [?m]"
      unfolding f c using cm by simp
    moreover have "\<not> valid"
      unfolding v iss c using lm by (simp add: is_valid_append is_valid_Cons)
    ultimately show ?thesis by (simp add: c)
  qed
  have B: "filter (\<lambda>i. code i = ?c) issues = []"
    if "\<not> truthy pk \<or> (\<exists>names. pk = VList (map VStr names))"
    using that
  proof
    assume "\<not> truthy pk"
    with pk show ?thesis unfolding f by (simp add: primary_key_check_falsy)
  next
    assume "\<exists>names. pk = VList (map VStr names)"
    then obtain names where "str_list pk = Some names" by (auto simp: str_list_Some_iff)
    with pk show ?thesis
      unfolding f by (intro filter_code_empty) (auto dest: primary_key_check_names)
  qed
  from A B show ?thesis by blast
qed


theorem primary_key_invalid_witness:
  "validate example_pandas
     [(''id'', \<lparr>dtype = ''int64'', cells = [CInt 1, CInt 2]\<rparr>)]
     [(''columns'', VDict [(''id'', VDict [(''dtype'', VStr ''int'')])]),
      (''primary_key'', VList [VStr ''id'', VInt 3])]
   = Inr (False,
       [mk_issue ''ERROR'' ''SCHEMA_PRIMARY_KEY_INVALID''
          [Txt ''Schema 'primary_key' must be a list of column names.''] None None None])
   \<and> filter (\<lambda>i. code i = ''SCHEMA_PRIMARY_KEY_INVALID'')
       [mk_issue ''ERROR'' ''SCHEMA_PRIMARY_KEY_INVALID''
          [Txt ''Schema 'primary_key' must be a list of column names.''] None None None]
     = [mk_issue ''ERROR'' ''SCHEMA_PRIMARY_KEY_INVALID''
          [Txt ''Schema 'primary_key' must be a list of column names.''] None None None]"
proof -
  let ?df = "[(''id'', \<lparr>dtype = ''int64'', cells = [CInt 1, CInt 2]\<rparr>)]"
  let ?cs = "[(''id'', VDict [(''dtype'', VStr ''int'')])]"
  let ?schema = "[(''columns'', VDict ?cs), (''primary_key'', VList [VStr ''id'', VInt 3])]"
  let ?m = "mk_issue ''ERROR'' ''SCHEMA_PRIMARY_KEY_INVALID''
          [Txt ''Schema 'primary_key' must be a list of column names.''] None None None"
  have 1: "columns_spec_of ?schema = VDict ?cs"
    by (simp add: columns_spec_of_def py_or_def dict_get_def)
  have 2: "?cs \<noteq> []" by simp
  have 3: "validate example_pandas ?df ?schema = Inr (False, [?m])"
    by (simp add: eval_simps)
  have 4: "VList [VStr ''id'', VInt 3] = dict_get ?schema ''primary_key'' VNone"
    by (simp add: dict_get_def)
  have 5: "truthy (VList [VStr ''id'', VInt 3])
           \<and> (\<forall>names. VList [VStr ''id'', VInt 3] \<noteq> VList (map VStr names))"
    by (auto simp: Cons_eq_map_conv)
  from primary_key_invalid [OF 1 2 3 4, THEN conjunct1, THEN mp, OF 5, THEN conjunct1] 3
  show ?thesis by (intro conjI)
qed

subsection \<open>A rules entry that is not a list\<close>

lemma rules_check_not_list:
  assumes "truthy (dict_get schema ''rules'' (VList []))"
      and "\<forall>rs. dict_get schema ''rules'' (VList []) \<noteq> VList rs"
  shows "rules_check P df schema =
           [mk_issue ''ERROR'' ''SCHEMA_RULES_INVALID''
              [Txt ''Schema 'rules' must be a list.''] None None None]"
  using assms
  by (cases "dict_get schema ''rules'' (VList [])")
     (simp_all add: rules_check_def rules_invalid_def py_or_def)

text \<open>
  C9 as stated does not hold. A schema without \<open>columns\<close> returns before the rules
  are looked at: its
  \<open>rules\<close> entry is truthy and not a list, and the only issue is SCHEMA_NO_COLUMNS.
\<close>

theorem rules_not_a_list_counterexample:
  "validate example_pandas
     [(''a'', \<lparr>dtype = ''int64'', cells = [CInt 1]\<rparr>)]
     [(''rules'', VStr ''a >= 0'')]
   = Inr (False,
       [mk_issue ''ERROR'' ''SCHEMA_NO_COLUMNS''
          [Txt ''Schema must define a non-empty 'columns' mapping.''] None None None])"
  by (simp add: eval_simps no_columns_issue_def)

text \<open>
  C9 (amended): on a schema with a non-empty \<open>columns\<close> mapping whose \<open>rules\<close>
  entry is truthy and not a list, the issues that \<^verbatim>\<open>validate\<close> returns hold exactly
  one issue with code SCHEMA_RULES_INVALID, an ERROR, and none with a code of the rule
  loop (TABLE_RULE_VIOLATION, TABLE_RULE_EVAL_ERROR, SCHEMA_RULE_MISSING_EXPR,
  SCHEMA_RULE_INVALID); the verdict is invalid. The other checks run as usual: the issue
  list is the issues of the required-column, extra-column, column-level and primary-key
  checks, followed by that one issue.
\<close>

theorem rules_not_a_list:
  assumes cols: "columns_spec_of schema = VDict cs" "cs \<noteq> []"
      and run: "validate P df schema = Inr (valid, issues)"
      and rules: "truthy (dict_get schema ''rules'' (VList []))"
                 "\<forall>rs. dict_get schema ''rules'' (VList []) \<noteq> VList rs"
  shows "filter (\<lambda>i. code i = ''SCHEMA_RULES_INVALID'') issues =
           [mk_issue ''ERROR'' ''SCHEMA_RULES_INVALID''
              [Txt ''Schema 'rules' must be a list.''] None None None]
       \<and> \<not> valid
       \<and> filter (\<lambda>i. code i = ''TABLE_RULE_VIOLATION'' \<or> code i = ''TABLE_RULE_EVAL_ERROR''
                     \<or> code i = ''SCHEMA_RULE_MISSING_EXPR'' \<or> code i = ''SCHEMA_RULE_INVALID'')
            issues = []
       \<and> (\<exists>required column_issues.
             required_cols cs = Inr required
             \<and> check_columns P df cs = Inr column_issues
             \<and> issues = missing_required df required @ unexpected_columns df schema cs
                  @ column_issues @ primary_key_check df schema
                  @ [mk_issue ''ERROR'' ''SCHEMA_RULES_INVALID''
                       [Txt ''Schema 'rules' must be a list.''] None None None])"
proof -
  let ?m = "mk_issue ''ERROR'' ''SCHEMA_RULES_INVALID''
              [Txt ''Schema 'rules' must be a list.''] None None None"
  let ?rule = "\<lambda>i. code i = ''TABLE_RULE_VIOLATION'' \<or> code i = ''TABLE_RULE_EVAL_ERROR''
                     \<or> code i = ''SCHEMA_RULE_MISSING_EXPR'' \<or> code i = ''SCHEMA_RULE_INVALID''"
  from cols run have "validate_columns P df schema cs = Inr (valid, issues)"
    by (simp add: validate_nonempty)
  then obtain req ci where req: "required_cols cs = Inr req"
    and ci: "check_columns P df cs = Inr ci"
    and iss0: "issues = missing_required df req @ unexpected_columns df schema cs @ ci
                @ primary_key_check df schema @ rules_check P df schema"
    and v: "valid = is_valid issues"
    by (rule validate_columns_Inr)
  have rc: "rules_check P df schema = [?m]"
    using rules by (rule rules_check_not_list)
  have iss: "issues = missing_required df req @ unexpected_columns df schema cs @ ci
                @ primary_key_check df schema @ [?m]"
    using iss0 rc by simp
  have lm: "level ?m = ''ERROR''" and cm: "code ?m = ''SCHEMA_RULES_INVALID''"
    by (simp_all add: mk_issue_def)
  have A: "filter (\<lambda>i. code i = ''SCHEMA_RULES_INVALID'') issues = [?m]"
    unfolding iss using cm
    by (simp add: filter_code_missing_required filter_code_unexpected filter_code_primary_key
        filter_code_columns [OF ci] column_codes_def primary_key_codes_def)
  have B: "\<not> valid"
    unfolding v iss using lm by (simp add: is_valid_append is_valid_Cons)
  have C: "filter ?rule issues = []"
  proof -
    have "\<not> ?rule i" if "i \<in> set issues" for i
    proof -
      from that iss consider "i \<in> set (missing_required df req)"
        | "i \<in> set (unexpected_columns df schema cs)" | "i \<in> set ci"
        | "i \<in> set (primary_key_check df schema)" | "i = ?m"
        by auto
      then show ?thesis
      proof cases
        case 1 then show ?thesis by (auto dest!: missing_required_issue simp: table_issue_def)
      next
        case 2 then show ?thesis by (auto dest!: unexpected_columns_issue simp: table_issue_def)
      next
        case 3 then show ?thesis
          by (auto dest!: check_columns_issue [OF ci] simp: col_issue_def column_codes_def)
      next
        case 4 then show ?thesis
          by (auto dest!: primary_key_check_issue simp: table_issue_def primary_key_codes_def)
      next
        case 5 then show ?thesis by (simp add: mk_issue_def)
      qed
    qed
    then show ?thesis by (simp add: filter_empty_conv)
  qed
  from req ci iss have D: "\<exists>required column_issues.
             required_cols cs = Inr required
             \<and> check_columns P df cs = Inr column_issues
             \<and> issues = missing_required df required @ unexpected_columns df schema cs
                  @ column_issues @ primary_key_check df schema @ [?m]"
    by blast
  from A B C D show ?thesis by (intro conjI)
qed


theorem rules_not_a_list_witness:
  "validate example_pandas
     [(''a'', \<lparr>dtype = ''float64'', cells = [CFloat 1, CNaN]\<rparr>)]
     [(''columns'', VDict [(''a'', VDict [(''nullable'', VBool False)])]),
      (''rules'', VDict [(''name'', VStr ''a_nonnegative''), (''expr'', VStr ''a >= 0'')])]
   = Inr (False,
       [mk_issue ''ERROR'' ''NULLS_NOT_ALLOWED''
          [Txt ''Column '', Quoted ''a'', Txt '' contains '', Count 1,
           Txt '' nulls but nullable=false.'']
          (Some ''a'') (Some 1) (Some [ExCell CNaN]),
        mk_issue ''ERROR'' ''SCHEMA_RULES_INVALID''
          [Txt ''Schema 'rules' must be a list.''] None None None])
   \<and> filter (\<lambda>i. code i = ''SCHEMA_RULES_INVALID'')
       [mk_issue ''ERROR'' ''NULLS_NOT_ALLOWED''
          [Txt ''Column '', Quoted ''a'', Txt '' contains '', Count 1,
           Txt '' nulls but nullable=false.'']
          (Some ''a'') (Some 1) (Some [ExCell CNaN]),
        mk_issue ''ERROR'' ''SCHEMA_RULES_INVALID''
          [Txt ''Schema 'rules' must be a list.''] None None None]
     = [mk_issue ''ERROR'' ''SCHEMA_RULES_INVALID''
          [Txt ''Schema 'rules' must be a list.''] None None None]"
proof -
  let ?df = "[(''a'', \<lparr>dtype = ''float64'', cells = [CFloat 1, CNaN]\<rparr>)]"
  let ?cs = "[(''a'', VDict [(''nullable'', VBool False)])]"
  let ?schema = "[(''columns'', VDict ?cs),
      (''rules'', VDict [(''name'', VStr ''a_nonnegative''), (''expr'', VStr ''a >= 0'')])]"
  let ?issues = "[mk_issue ''ERROR'' ''NULLS_NOT_ALLOWED''
          [Txt ''Column '', Quoted ''a'', Txt '' contains '', Count 1,
           Txt '' nulls but nullable=false.'']
          (Some ''a'') (Some 1) (Some [ExCell CNaN]),
        mk_issue ''ERROR'' ''SCHEMA_RULES_INVALID''
          [Txt ''Schema 'rules' must be a list.''] None None None]"
  have 1: "columns_spec_of ?schema = VDict ?cs"
    by (simp add: columns_spec_of_def py_or_def dict_get_def)
  have 2: "?cs \<noteq> []" by simp
  have 3: "validate example_pandas ?df ?schema = Inr (False, ?issues)"
    by (simp add: eval_simps)
  have 4: "truthy (dict_get ?schema ''rules'' (VList []))"
    by (simp add: dict_get_def)
  have 5: "\<forall>rs. dict_get ?schema ''rules'' (VList []) \<noteq> VList rs"
    by (simp add: dict_get_def)
  from rules_not_a_list [OF 1 2 3 4 5, THEN conjunct1] 3
  show ?thesis by (intro conjI)
qed

subsection \<open>A rule whose evaluation raises\<close>

lemma table_rules_append:
  "table_rules P df (before @ r # after) =
     table_rules P df before @ table_rule P df r @ table_rules P df after"
  by (simp add: table_rules_def)

lemma safe_eval_expr_raises:
  "df_eval P df e = EvRaises msg \<Longrightarrow> safe_eval_expr P df e = Inl (eval_failure e msg)"
  by (simp add: safe_eval_expr_def)

lemma table_rule_raises:
  assumes "dict_get r ''expr'' VNone = VStr e" "e \<noteq> []" "df_eval P df e = EvRaises msg"
  shows "table_rule P df (VDict r) =
           [mk_issue ''ERROR'' ''TABLE_RULE_EVAL_ERROR'' [Txt (eval_failure e msg)] None None None]"
  using assms by (simp add: table_rule_def rule_eval_error_def safe_eval_expr_raises)

lemma rules_check_list:
  "dict_get schema ''rules'' (VList []) = VList rs \<Longrightarrow> rules_check P df schema = table_rules P df rs"
  by (cases rs) (simp_all add: rules_check_def py_or_def table_rules_def)

text \<open>
  C7: when the expression of a rule in the list raises on evaluation, with failure
  message \<open>msg\<close>, the issues that \<^verbatim>\<open>validate\<close> returns are those of the earlier
  checks and of the rules before it, then one ERROR issue with code
  TABLE_RULE_EVAL_ERROR whose message ends with \<open>msg\<close>, then the issues of the rules
  after it, each evaluated as it would be on its own; the verdict is invalid.
\<close>

theorem rule_eval_error:
  assumes cols: "columns_spec_of schema = VDict cs" "cs \<noteq> []"
      and run: "validate P df schema = Inr (valid, issues)"
      and rules: "dict_get schema ''rules'' (VList []) = VList (before @ VDict r # after)"
      and expr: "dict_get r ''expr'' VNone = VStr e" "e \<noteq> []"
      and raises: "df_eval P df e = EvRaises msg"
  shows "(\<exists>required column_issues.
            required_cols cs = Inr required
            \<and> check_columns P df cs = Inr column_issues
            \<and> issues = missing_required df required @ unexpected_columns df schema cs
                 @ column_issues @ primary_key_check df schema
                 @ table_rules P df before
                 @ [mk_issue ''ERROR'' ''TABLE_RULE_EVAL_ERROR''
                      [Txt (''Failed to evaluate rule expr='' @ [CHR 0x27] @ e @ [CHR 0x27]
                            @ '': '' @ msg)]
                      None None None]
                 @ table_rules P df after)
       \<and> table_rules P df after = concat (map (table_rule P df) after)
       \<and> \<not> valid"
proof -
  let ?m = "mk_issue ''ERROR'' ''TABLE_RULE_EVAL_ERROR''
              [Txt (''Failed to evaluate rule expr='' @ [CHR 0x27] @ e @ [CHR 0x27] @ '': '' @ msg)]
              None None None"
  from cols run have "validate_columns P df schema cs = Inr (valid, issues)"
    by (simp add: validate_nonempty)
  then obtain req ci where req: "required_cols cs = Inr req"
    and ci: "check_columns P df cs = Inr ci"
    and iss0: "issues = missing_required df req @ unexpected_columns df schema cs @ ci
                @ primary_key_check df schema @ rules_check P df schema"
    and v: "valid = is_valid issues"
    by (rule validate_columns_Inr)
  have "table_rule P df (VDict r) = [?m]"
    using table_rule_raises [OF expr raises] by (simp add: eval_failure_def)
  then have rc: "rules_check P df schema = table_rules P df before @ [?m] @ table_rules P df after"
    using rules by (simp add: rules_check_list table_rules_append)
  have iss: "issues = missing_required df req @ unexpected_columns df schema cs @ ci
                @ primary_key_check df schema @ table_rules P df before @ [?m]
                @ table_rules P df after"
    using iss0 rc by simp
  have "level ?m = ''ERROR''" by (simp add: mk_issue_def)
  then have B: "\<not> valid"
    unfolding v iss by (simp add: is_valid_append is_valid_Cons)
  from req ci iss have A: "\<exists>required column_issues.
            required_cols cs = Inr required
            \<and> check_columns P df cs = Inr column_issues
            \<and> issues = missing_required df required @ unexpected_columns df schema cs
                 @ column_issues @ primary_key_check df schema
                 @ table_rules P df before @ [?m] @ table_rules P df after"
    by blast
  have C: "table_rules P df after = concat (map (table_rule P df) after)"
    by (simp add: table_rules_def)
  from A B C show ?thesis by (intro conjI)
qed


text \<open>The rows of the table of the example below.\<close>

lemma w_rows: "df_rows [(''a'', \<lparr>dtype = ''int64'', cells = [CInt 1, CInt 0]\<rparr>),
      (''b'', \<lparr>dtype = ''bool'', cells = [CBool True, CBool False]\<rparr>)]
   = [[(''a'', CInt 1), (''b'', CBool True)], [(''a'', CInt 0), (''b'', CBool False)]]"
  by (simp add: df_rows_def n_rows_of_def upt_rec)

theorem rule_eval_error_witness:
  "validate example_pandas
     [(''a'', \<lparr>dtype = ''int64'', cells = [CInt 1, CInt 0]\<rparr>),
      (''b'', \<lparr>dtype = ''bool'', cells = [CBool True, CBool False]\<rparr>)]
     [(''columns'', VDict [(''a'', VNone)]),
      (''rules'', VList [VDict [(''name'', VStr ''typo''), (''expr'', VStr ''c'')],
                        VDict [(''name'', VStr ''b_holds''), (''expr'', VStr ''b'')]])]
   = Inr (False,
       [mk_issue ''ERROR'' ''TABLE_RULE_EVAL_ERROR''
          [Txt (''Failed to evaluate rule expr='' @ [CHR 0x27] @ ''c'' @ [CHR 0x27] @ '': ''
                @ ''name '' @ [CHR 0x27] @ ''c'' @ [CHR 0x27] @ '' is not defined'')]
          None None None,
        mk_issue ''ERROR'' ''TABLE_RULE_VIOLATION''
          [Txt ''Rule '', QuotedVal (VStr ''b_holds''), Txt '' failed for '', Count 1,
           Txt '' rows. expr='', Txt ''b'']
          None (Some 1) (Some [ExRow [(''a'', CInt 0), (''b'', CBool False)]])])
   \<and> table_rules example_pandas
       [(''a'', \<lparr>dtype = ''int64'', cells = [CInt 1, CInt 0]\<rparr>),
        (''b'', \<lparr>dtype = ''bool'', cells = [CBool True, CBool False]\<rparr>)]
       [VDict [(''name'', VStr ''b_holds''), (''expr'', VStr ''b'')]]
     = concat (map (table_rule example_pandas
         [(''a'', \<lparr>dtype = ''int64'', cells = [CInt 1, CInt 0]\<rparr>),
          (''b'', \<lparr>dtype = ''bool'', cells = [CBool True, CBool False]\<rparr>)])
         [VDict [(''name'', VStr ''b_holds''), (''expr'', VStr ''b'')]])"
proof -
  let ?df = "[(''a'', \<lparr>dtype = ''int64'', cells = [CInt 1, CInt 0]\<rparr>),
      (''b'', \<lparr>dtype = ''bool'', cells = [CBool True, CBool False]\<rparr>)]"
  let ?cs = "[(''a'', VNone)]"
  let ?r = "[(''name'', VStr ''typo''), (''expr'', VStr ''c'')]"
  let ?after = "[VDict [(''name'', VStr ''b_holds''), (''expr'', VStr ''b'')]]"
  let ?schema = "[(''columns'', VDict ?cs), (''rules'', VList (VDict ?r # ?after))]"
  let ?issues = "[mk_issue ''ERROR'' ''TABLE_RULE_EVAL_ERROR''
          [Txt (''Failed to evaluate rule expr='' @ [CHR 0x27] @ ''c'' @ [CHR 0x27] @ '': ''
                @ ''name '' @ [CHR 0x27] @ ''c'' @ [CHR 0x27] @ '' is not defined'')]
          None None None,
        mk_issue ''ERROR'' ''TABLE_RULE_VIOLATION''
          [Txt ''Rule '', QuotedVal (VStr ''b_holds''), Txt '' failed for '', Count 1,
           Txt '' rows. expr='', Txt ''b'']
          None (Some 1) (Some [ExRow [(''a'', CInt 0), (''b'', CBool False)]])]"
  have 1: "columns_spec_of ?schema = VDict ?cs"
    by (simp add: columns_spec_of_def py_or_def dict_get_def)
  have 2: "?cs \<noteq> []" by simp
  have 3: "validate example_pandas ?df ?schema = Inr (False, ?issues)"
    by (simp add: eval_simps w_rows example_pandas_def column_eval_def eval_failure_def)
  have 4: "dict_get ?schema ''rules'' (VList []) = VList ([] @ VDict ?r # ?after)"
    by (simp add: dict_get_def)
  have 5: "dict_get ?r ''expr'' VNone = VStr ''c''" by (simp add: dict_get_def)
  have 6: "''c'' \<noteq> []" by simp
  have 7: "df_eval example_pandas ?df ''c''
            = EvRaises (''name '' @ [CHR 0x27] @ ''c'' @ [CHR 0x27] @ '' is not defined'')"
    by (simp add: example_pandas_def column_eval_def)
  from rule_eval_error [OF 1 2 3 4 5 6 7, THEN conjunct2, THEN conjunct1] 3
  show ?thesis by (intro conjI)
qed

subsection \<open>A null column spec\<close>

lemma required_cols_same:
  "list_all2 same_spec cs cs' \<Longrightarrow> required_cols cs = required_cols cs'"
proof (induction rule: list_all2_induct)
  case Nil
  then show ?case by simp
next
  case (Cons a cs b cs')
  obtain c spec c' spec' where ab: "a = (c, spec)" "b = (c', spec')" by (cases a, cases b)
  with Cons.hyps have "c = c'" "py_or spec (VDict []) = py_or spec' (VDict [])"
    by (simp_all add: same_spec_def)
  with ab Cons.IH show ?case by (simp split: sum.splits)
qed

lemma check_column_same:
  "py_or spec (VDict []) = py_or spec' (VDict []) \<Longrightarrow>
     check_column P df c spec = check_column P df c spec'"
  by (simp add: check_column_def)

lemma check_columns_same:
  "list_all2 same_spec cs cs' \<Longrightarrow> check_columns P df cs = check_columns P df cs'"
proof (induction rule: list_all2_induct)
  case Nil
  then show ?case by simp
next
  case (Cons a cs b cs')
  obtain c spec c' spec' where ab: "a = (c, spec)" "b = (c', spec')" by (cases a, cases b)
  with Cons.hyps have "c = c'" "py_or spec (VDict []) = py_or spec' (VDict [])"
    by (simp_all add: same_spec_def)
  then have "check_column P df c spec = check_column P df c' spec'"
    using check_column_same [of spec spec' P df c'] by simp
  with ab Cons.IH show ?case by (simp split: sum.splits)
qed

lemma same_spec_keys: "list_all2 same_spec cs cs' \<Longrightarrow> map fst cs = map fst cs'"
  by (induction rule: list_all2_induct) (simp_all add: same_spec_def)

lemma dict_has_keys: "dict_has cs k \<longleftrightarrow> k \<in> set (map fst cs)"
  by (simp add: dict_has_def map_of_eq_None_iff)

lemma unexpected_columns_same:
  assumes "list_all2 same_spec cs cs'"
      and "dict_get schema ''allow_extra_columns'' (VBool True)
           = dict_get schema' ''allow_extra_columns'' (VBool True)"
  shows "unexpected_columns df schema cs = unexpected_columns df schema' cs'"
  using assms(2) same_spec_keys [OF assms(1)]
  by (simp add: unexpected_columns_def dict_has_keys)


lemma validate_columns_same:
  assumes "list_all2 same_spec cs cs'"
      and "\<And>k d. k \<noteq> ''columns'' \<Longrightarrow> dict_get schema k d = dict_get schema' k d"
  shows "validate_columns P df schema cs = validate_columns P df schema' cs'"
proof -
  have 1: "unexpected_columns df schema cs = unexpected_columns df schema' cs'"
    using assms by (intro unexpected_columns_same) simp_all
  have 2: "primary_key_check df schema = primary_key_check df schema'"
    using assms(2) by (simp add: primary_key_check_def)
  have 3: "rules_check P df schema = rules_check P df schema'"
    using assms(2) by (simp add: rules_check_def)
  note 4 = required_cols_same [OF assms(1)]
  note 5 = check_columns_same [OF assms(1), of P df]
  show ?thesis
    unfolding validate_columns_def 1 2 3 4 5 ..
qed

lemma same_spec_none:
  "list_all2 same_spec (cs1 @ (c, VNone) # cs2) (cs1 @ (c, VDict []) # cs2)"
  by (simp add: list_all2_appendI list_all2_refl same_spec_def py_or_def list_all2_same)


lemma check_column_none: "check_column P df c VNone = Inr []"
  by (simp add: check_column_def py_or_def column_checks_empty_spec split: option.splits)

text \<open>
  C10: a column whose spec is null is validated as a column whose spec is the empty
  mapping: replacing the null spec of column \<open>c\<close> by \<open>{}\<close> in the schema changes
  neither the verdict nor the issue list (nor whether the run raises). The null spec
  itself raises nothing and yields no issue for its column; it makes the column not
  required and unconstrained.
\<close>

theorem none_spec_as_empty:
  assumes old: "map_of schema ''columns'' = Some (VDict (cs1 @ (c, VNone) # cs2))"
      and new: "map_of schema' = (map_of schema)(''columns'' \<mapsto> VDict (cs1 @ (c, VDict []) # cs2))"
  shows "validate P df schema' = validate P df schema
       \<and> check_column P df c VNone = Inr []
       \<and> \<not> is_required VNone \<and> unconstrained VNone"
proof -
  let ?cs = "cs1 @ (c, VNone) # cs2" and ?cs' = "cs1 @ (c, VDict []) # cs2"
  have 1: "columns_spec_of schema = VDict ?cs"
    using old by (simp add: columns_spec_of_def dict_get_def py_or_def)
  have 2: "columns_spec_of schema' = VDict ?cs'"
    using new by (simp add: columns_spec_of_def dict_get_def py_or_def)
  have 3: "dict_get schema' k d = dict_get schema k d" if "k \<noteq> ''columns''" for k d
    using new that by (simp add: dict_get_def)
  have "validate_columns P df schema' ?cs' = validate_columns P df schema ?cs"
    using same_spec_none [of cs1 c cs2] 3
    by (intro validate_columns_same [symmetric]) simp_all
  then have "validate P df schema' = validate P df schema"
    using 1 2 by (simp add: validate_def)
  moreover have "\<not> is_required VNone" "unconstrained VNone"
    by (simp_all add: is_required_def unconstrained_def py_or_def dict_get_def dict_has_def)
  ultimately show ?thesis by (simp add: check_column_none)
qed

theorem none_spec_as_empty_witness:
  "validate example_pandas
     [(''Start_time'', \<lparr>dtype = ''float64'', cells = [CFloat 0, CFloat (1 / 2)]\<rparr>),
      (''Note'', \<lparr>dtype = ''object'', cells = [CNaN, CStr ''x'']\<rparr>)]
     [(''version'', VInt 1),
      (''columns'', VDict [(''Start_time'', VDict [(''required'', VBool True), (''min'', VInt 0)]),
                         (''Note'', VDict []),
                         (''Class'', VDict [(''required'', VBool True)])])]
   = Inr (False,
       [mk_issue ''ERROR'' ''MISSING_REQUIRED_COLUMNS''
          [Txt ''Missing required columns: '', Names [''Class'']]
          None (Some 1) (Some [ExName ''Class''])])"
proof -
  let ?df = "[(''Start_time'', \<lparr>dtype = ''float64'', cells = [CFloat 0, CFloat (1 / 2)]\<rparr>),
      (''Note'', \<lparr>dtype = ''object'', cells = [CNaN, CStr ''x'']\<rparr>)]"
  let ?cs1 = "[(''Start_time'', VDict [(''required'', VBool True), (''min'', VInt 0)])]"
  let ?cs2 = "[(''Class'', VDict [(''required'', VBool True)])]"
  let ?schema = "[(''version'', VInt 1), (''columns'', VDict (?cs1 @ (''Note'', VNone) # ?cs2))]"
  let ?schema' = "[(''version'', VInt 1), (''columns'', VDict (?cs1 @ (''Note'', VDict []) # ?cs2))]"
  have 1: "map_of ?schema ''columns'' = Some (VDict (?cs1 @ (''Note'', VNone) # ?cs2))"
    by simp
  have 2: "map_of ?schema' = (map_of ?schema)(''columns'' \<mapsto> VDict (?cs1 @ (''Note'', VDict []) # ?cs2))"
    by (rule ext) simp
  have 3: "validate example_pandas ?df ?schema
    = Inr (False,
       [mk_issue ''ERROR'' ''MISSING_REQUIRED_COLUMNS''
          [Txt ''Missing required columns: '', Names [''Class'']]
          None (Some 1) (Some [ExName ''Class''])])"
    by (simp add: eval_simps dropna_numeric_def List.map_filter_def)
  from none_spec_as_empty [OF 1 2, THEN conjunct1, of example_pandas ?df] 3
  show ?thesis by simp
qed

subsection \<open>Missing outcomes of a rule\<close>

text \<open>
  After \<^verbatim>\<open>astype(bool)\<close> a row is a violation exactly when its outcome is falsy:
  a NaN outcome passes, a None outcome is a violation.
\<close>

lemma rule_bad_mask_astype_bool:
  "rule_bad_mask (astype_bool s) = map (\<lambda>c. \<not> cell_bool c) (cells s)"
  by (simp add: rule_bad_mask_def astype_bool_def fillna_False_def)

lemma safe_eval_expr_not_bool:
  "df_eval P df e = EvSeries out \<Longrightarrow> dtype out \<noteq> ''bool'' \<Longrightarrow>
     safe_eval_expr P df e = Inr (astype_bool out)"
  by (simp add: safe_eval_expr_def)

lemma missing_outcome_after_astype:
  "rule_bad_mask (astype_bool \<lparr>dtype = d, cells = [CNaN, CNone]\<rparr>) = [False, True]"
  by (simp add: rule_bad_mask_astype_bool)

text \<open>
  C3: a rule whose expression names a column of booleans with a missing value. The
  outcome of the second row is NaN; the result is not of dtype bool, so
  \<^verbatim>\<open>_safe_eval_expr\<close> applies \<^verbatim>\<open>astype(bool)\<close>, NaN becomes True, and
  \<^verbatim>\<open>fillna(False)\<close> finds nothing to fill: the row counts as a pass and validation
  returns VALID with no issue, where a fail-closed count would report one violation.
\<close>

theorem missing_outcome_passes:
  "validate example_pandas
     [(''flag'', \<lparr>dtype = ''object'', cells = [CBool True, CNaN]\<rparr>)]
     [(''columns'', VDict [(''flag'', VNone)]),
      (''rules'', VList [VDict [(''name'', VStr ''flag_set''), (''expr'', VStr ''flag'')]])]
   = Inr (True, [])"
  by (simp add: eval_simps example_pandas_def column_eval_def)

subsection \<open>Running validation twice\<close>


lemma extends_append: "extends h (h @ new)"
  by (simp add: extends_def)





lemma new_series_extends: "new_series s h = (a, h') \<Longrightarrow> extends h h' \<and> h' ! a = s \<and> a = length h"
  by (auto simp: new_series_def extends_append)





























end
